theory Spec2Isabelle
  imports Complex_Main "HOL-Library.Log_Nat" "HOL-Library.Multiset"
begin

section \<open>Numbers\<close>

text \<open>
  The program is TypeScript: every \<^verbatim>\<open>number\<close> is an IEEE 754 binary64 value.
  Two kinds of numbers occur in the code that is modelled here.

  \<^item> Millisecond timestamps, day counts and billing cycles are integers far below
    \<open>2^53\<close>; on those the machine arithmetic is exact, and they are modelled as \<open>int\<close>.
    A quotient of two such integers that is immediately passed to \<^verbatim>\<open>Math.floor\<close> or
    \<^verbatim>\<open>Math.ceil\<close> is modelled by the floor or ceiling of the exact quotient: for a
    dividend below \<open>2^53\<close> in magnitude the rounded quotient has the same floor and the
    same ceiling as the exact one.
  \<^item> Amounts of money are modelled as \<open>real\<close>, and every \<^verbatim>\<open>/\<close>, \<^verbatim>\<open>*\<close>
    and \<^verbatim>\<open>+\<close> on them rounds its exact result to the nearest binary64 value, ties
    to even (\<open>binary64\<close> below). The exponent range is taken as unbounded: overflow to
    infinity, subnormal numbers and the sign of zero are outside the model, and so are
    NaN operands, except where the code produces NaN from an unparseable date.
\<close>

definition pow2 :: "int \<Rightarrow> real" where
  "pow2 e = (if 0 \<le> e then 2 ^ nat e else 1 / 2 ^ nat (- e))"

definition ilog2 :: "real \<Rightarrow> int" where
  \<comment> \<open>for \<open>0 < x\<close>: the exponent \<open>k\<close> with \<open>2^k \<le> x < 2^(k+1)\<close>\<close>
  "ilog2 x = (if 1 \<le> x then int (floorlog 2 (nat \<lfloor>x\<rfloor>)) - 1
              else - int (floorlog 2 (nat (\<lceil>1 / x\<rceil> - 1))))"

definition roundTiesToEven :: "real \<Rightarrow> int" where
  "roundTiesToEven x =
     (let f = \<lfloor>x\<rfloor>; d = x - of_int f
      in if d < 1 / 2 then f else if 1 / 2 < d then f + 1 else if even f then f else f + 1)"

definition binary64 :: "real \<Rightarrow> real" where
  \<comment> \<open>round to 53 significant bits\<close>
  "binary64 x =
     (if x = 0 then 0
      else let e = ilog2 \<bar>x\<bar> - 52; m = roundTiesToEven (\<bar>x\<bar> / pow2 e)
           in sgn x * of_int m * pow2 e)"

definition js_div :: "real \<Rightarrow> real \<Rightarrow> real" where
  "js_div x y = binary64 (x / y)"

definition js_mul :: "real \<Rightarrow> real \<Rightarrow> real" where
  "js_mul x y = binary64 (x * y)"

definition js_add :: "real \<Rightarrow> real \<Rightarrow> real" where
  "js_add x y = binary64 (x + y)"

text \<open>A number that may be NaN, with the comparison \<^verbatim>\<open><=\<close> of the language.\<close>

datatype number = NaN | Num real

fun num_le :: "number \<Rightarrow> number \<Rightarrow> bool" where
  "num_le (Num x) (Num y) = (x \<le> y)"
| "num_le _ _ = False"

section \<open>Strings\<close>

text \<open>
  A string is modelled by its UTF-8 bytes. \<^verbatim>\<open>toUpperCase\<close> maps the ASCII letters and
  leaves every other byte as it is, which is what the language does on all the keys and
  values of the tables below (currency symbols and CJK names have no case); letters
  outside ASCII that have an upper case are outside the model.
\<close>

definition upper_char :: "char \<Rightarrow> char" where
  "upper_char c =
     (let n = (of_char c :: nat) in if 97 \<le> n \<and> n \<le> 122 then char_of (n - 32) else c)"

definition toUpperCase :: "string \<Rightarrow> string" where
  "toUpperCase s = map upper_char s"

section \<open>services/exchangeRate.ts\<close>

record ExchangeRateData =
  base :: string
  date :: string
  rates :: "string \<rightharpoonup> real"
  lastUpdated :: "int option"

text \<open>The table \<^verbatim>\<open>currencyMap\<close>: symbols and Chinese names to ISO codes.\<close>

definition currencyMap_entries :: "(string \<times> string) list" where
  "currencyMap_entries =
    [
     ([CHR 0xC2, CHR 0xA5], ''CNY''),
     ([CHR 0xEF, CHR 0xBF, CHR 0xA5], ''CNY''),
     (''$'', ''USD''),
     ([CHR 0xE2, CHR 0x82, CHR 0xAC], ''EUR''),
     ([CHR 0xC2, CHR 0xA3], ''GBP''),
     ([CHR 0xE2, CHR 0x82, CHR 0xBD], ''RUB''),
     ([CHR 0xE2, CHR 0x82, CHR 0xA3], ''CHF''),
     ([CHR 0xE2, CHR 0x82, CHR 0xB9], ''INR''),
     ([CHR 0xE2, CHR 0x82, CHR 0xAB], ''VND''),
     ([CHR 0xE0, CHR 0xB8, CHR 0xBF], ''THB''),
     ([CHR 0xE2, CHR 0x82, CHR 0xA9], ''KRW''),
     ([CHR 0xE2, CHR 0x82, CHR 0xB1], ''PHP''),
     ([CHR 0xE4, CHR 0xBA, CHR 0xBA, CHR 0xE6, CHR 0xB0, CHR 0x91, CHR 0xE5, CHR 0xB8, CHR 0x81], ''CNY''),
     ([CHR 0xE7, CHR 0xBE, CHR 0x8E, CHR 0xE5, CHR 0x85, CHR 0x83], ''USD''),
     ([CHR 0xE6, CHR 0xAC, CHR 0xA7, CHR 0xE5, CHR 0x85, CHR 0x83], ''EUR''),
     ([CHR 0xE8, CHR 0x8B, CHR 0xB1, CHR 0xE9, CHR 0x95, CHR 0x91], ''GBP''),
     ([CHR 0xE6, CHR 0x97, CHR 0xA5, CHR 0xE5, CHR 0x85, CHR 0x83], ''JPY''),
     ([CHR 0xE9, CHR 0xA6, CHR 0x99, CHR 0xE6, CHR 0xB8, CHR 0xAF, CHR 0xE5, CHR 0x85, CHR 0x83], ''HKD''),
     ([CHR 0xE6, CHR 0xB8, CHR 0xAF, CHR 0xE5, CHR 0xB8, CHR 0x81], ''HKD''),
     ([CHR 0xE6, CHR 0xBE, CHR 0xB3, CHR 0xE9, CHR 0x97, CHR 0xA8, CHR 0xE5, CHR 0x85, CHR 0x83], ''MOP''),
     ([CHR 0xE6, CHR 0x96, CHR 0xB0, CHR 0xE5, CHR 0x8F, CHR 0xB0, CHR 0xE5, CHR 0xB8, CHR 0x81], ''TWD''),
     ([CHR 0xE6, CHR 0x96, CHR 0xB0, CHR 0xE5, CHR 0x8A, CHR 0xA0, CHR 0xE5, CHR 0x9D, CHR 0xA1, CHR 0xE5, CHR 0x85, CHR 0x83], ''SGD''),
     ([CHR 0xE9, CHR 0x9F, CHR 0xA9, CHR 0xE5, CHR 0x85, CHR 0x83], ''KRW''),
     ([CHR 0xE5, CHR 0x8D, CHR 0xB0, CHR 0xE5, CHR 0xBA, CHR 0xA6, CHR 0xE5, CHR 0x8D, CHR 0xA2, CHR 0xE6, CHR 0xAF, CHR 0x94], ''INR''),
     ([CHR 0xE5, CHR 0xA2, CHR 0xA8, CHR 0xE8, CHR 0xA5, CHR 0xBF, CHR 0xE5, CHR 0x93, CHR 0xA5, CHR 0xE6, CHR 0xAF, CHR 0x94, CHR 0xE7, CHR 0xB4, CHR 0xA2], ''MXN''),
     ([CHR 0xE5, CHR 0x8A, CHR 0xA0, CHR 0xE6, CHR 0x8B, CHR 0xBF, CHR 0xE5, CHR 0xA4, CHR 0xA7, CHR 0xE5, CHR 0x85, CHR 0x83], ''CAD''),
     ([CHR 0xE6, CHR 0xBE, CHR 0xB3, CHR 0xE5, CHR 0xA4, CHR 0xA7, CHR 0xE5, CHR 0x88, CHR 0xA9, CHR 0xE4, CHR 0xBA, CHR 0x9A, CHR 0xE5, CHR 0x85, CHR 0x83], ''AUD''),
     ([CHR 0xE6, CHR 0x96, CHR 0xB0, CHR 0xE8, CHR 0xA5, CHR 0xBF, CHR 0xE5, CHR 0x85, CHR 0xB0, CHR 0xE5, CHR 0x85, CHR 0x83], ''NZD''),
     ([CHR 0xE7, CHR 0x91, CHR 0x9E, CHR 0xE5, CHR 0xA3, CHR 0xAB, CHR 0xE6, CHR 0xB3, CHR 0x95, CHR 0xE9, CHR 0x83, CHR 0x8E], ''CHF''),
     ([CHR 0xE7, CHR 0x91, CHR 0x9E, CHR 0xE5, CHR 0x85, CHR 0xB8, CHR 0xE5, CHR 0x85, CHR 0x8B, CHR 0xE6, CHR 0x9C, CHR 0x97], ''SEK''),
     ([CHR 0xE6, CHR 0x8C, CHR 0xAA, CHR 0xE5, CHR 0xA8, CHR 0x81, CHR 0xE5, CHR 0x85, CHR 0x8B, CHR 0xE6, CHR 0x9C, CHR 0x97], ''NOK''),
     ([CHR 0xE4, CHR 0xB8, CHR 0xB9, CHR 0xE9, CHR 0xBA, CHR 0xA6, CHR 0xE5, CHR 0x85, CHR 0x8B, CHR 0xE6, CHR 0x9C, CHR 0x97], ''DKK''),
     ([CHR 0xE4, CHR 0xBF, CHR 0x84, CHR 0xE7, CHR 0xBD, CHR 0x97, CHR 0xE6, CHR 0x96, CHR 0xAF, CHR 0xE5, CHR 0x8D, CHR 0xA2, CHR 0xE5, CHR 0xB8, CHR 0x83], ''RUB''),
     ([CHR 0xE5, CHR 0x9C, CHR 0x9F, CHR 0xE8, CHR 0x80, CHR 0xB3, CHR 0xE5, CHR 0x85, CHR 0xB6, CHR 0xE9, CHR 0x87, CHR 0x8C, CHR 0xE6, CHR 0x8B, CHR 0x89], ''TRY''),
     ([CHR 0xE5, CHR 0x8D, CHR 0x97, CHR 0xE9, CHR 0x9D, CHR 0x9E, CHR 0xE5, CHR 0x85, CHR 0xB0, CHR 0xE7, CHR 0x89, CHR 0xB9], ''ZAR''),
     ([CHR 0xE9, CHR 0x98, CHR 0xBF, CHR 0xE6, CHR 0xA0, CHR 0xB9, CHR 0xE5, CHR 0xBB, CHR 0xB7, CHR 0xE6, CHR 0xAF, CHR 0x94, CHR 0xE7, CHR 0xB4, CHR 0xA2], ''ARS''),
     ([CHR 0xE6, CHR 0x99, CHR 0xBA, CHR 0xE5, CHR 0x88, CHR 0xA9, CHR 0xE6, CHR 0xAF, CHR 0x94, CHR 0xE7, CHR 0xB4, CHR 0xA2], ''CLP''),
     ([CHR 0xE5, CHR 0x93, CHR 0xA5, CHR 0xE4, CHR 0xBC, CHR 0xA6, CHR 0xE6, CHR 0xAF, CHR 0x94, CHR 0xE4, CHR 0xBA, CHR 0x9A, CHR 0xE6, CHR 0xAF, CHR 0x94, CHR 0xE7, CHR 0xB4, CHR 0xA2], ''COP''),
     ([CHR 0xE8, CHR 0xB6, CHR 0x8A, CHR 0xE5, CHR 0x8D, CHR 0x97, CHR 0xE7, CHR 0x9B, CHR 0xBE], ''VND''),
     ([CHR 0xE6, CHR 0xB3, CHR 0xB0, CHR 0xE5, CHR 0x9B, CHR 0xBD, CHR 0xE9, CHR 0x93, CHR 0xA2], ''THB''),
     ([CHR 0xE8, CHR 0x8F, CHR 0xB2, CHR 0xE5, CHR 0xBE, CHR 0x8B, CHR 0xE5, CHR 0xAE, CHR 0xBE, CHR 0xE6, CHR 0xAF, CHR 0x94, CHR 0xE7, CHR 0xB4, CHR 0xA2], ''PHP''),
     ([CHR 0xE9, CHR 0xA9, CHR 0xAC, CHR 0xE6, CHR 0x9D, CHR 0xA5, CHR 0xE8, CHR 0xA5, CHR 0xBF, CHR 0xE4, CHR 0xBA, CHR 0x9A, CHR 0xE6, CHR 0x9E, CHR 0x97, CHR 0xE5, CHR 0x90, CHR 0x89, CHR 0xE7, CHR 0x89, CHR 0xB9], ''MYR'')
    ]"

definition currencyMap :: "string \<rightharpoonup> string" where
  "currencyMap = map_of currencyMap_entries"

definition normalizeCurrencyCode :: "string \<Rightarrow> string" where
  \<comment> \<open>\<^verbatim>\<open>currencyMap[currencyCode.toUpperCase()] || currencyCode.toUpperCase()\<close>;
      no value of the table is the empty string\<close>
  "normalizeCurrencyCode currencyCode =
     (case currencyMap (toUpperCase currencyCode) of
        Some code \<Rightarrow> code
      | None \<Rightarrow> toUpperCase currencyCode)"

definition getCurrencyRate :: "string \<Rightarrow> ExchangeRateData \<Rightarrow> real option" where
  \<comment> \<open>\<^verbatim>\<open>rates.rates[...] || null\<close>: a missing rate and the rate 0 both give null\<close>
  "getCurrencyRate currencyCode r =
     (let normalizedCode = normalizeCurrencyCode currencyCode
      in if normalizedCode = base r then Some 1
         else (case rates r (toUpperCase normalizedCode) of
                 None \<Rightarrow> None
               | Some v \<Rightarrow> if v = 0 then None else Some v))"

definition convertCurrency :: "real \<Rightarrow> string \<Rightarrow> string \<Rightarrow> ExchangeRateData \<Rightarrow> real" where
  "convertCurrency amount fromCurrency toCurrency r =
     (if fromCurrency = toCurrency then amount
      else (case getCurrencyRate fromCurrency r of
              None \<Rightarrow> amount
            | Some fromRate \<Rightarrow>
                (case getCurrencyRate toCurrency r of
                   None \<Rightarrow> amount
                 | Some toRate \<Rightarrow> js_mul (js_div amount fromRate) toRate)))"


text \<open>
  \<^verbatim>\<open>getExchangeRates\<close>. The cache map of the service and the log of the fetches it
  has started are the state; the clock \<^verbatim>\<open>Date.now()\<close> is the argument \<open>now\<close>. The two
  private fetch functions perform the HTTP request: what each of them would settle to
  (the table it resolves to, or the exception it rejects with) is given by \<open>network\<close>.
  One call runs without interleaving with another. The result is what the promise settles
  to: \<open>Inr\<close> a value, \<open>Inl\<close> a rejection. The \<^verbatim>\<open>catch\<close> clause takes every exception of
  the \<^verbatim>\<open>try\<close> block, and the statements outside the block (the cache lookup and the
  comparison of the times) do not throw.
\<close>

datatype api_type = Exchangerate | Currency

fun api_name :: "api_type \<Rightarrow> string" where
  "api_name Exchangerate = ''exchangerate''"
| "api_name Currency = ''currency''"

datatype exception = Error string

record cache_entry =
  data :: ExchangeRateData
  timestamp :: int

record service_state =
  cache :: "string \<rightharpoonup> cache_entry"
  fetches :: "api_type list"

record network =
  fetchExchangeRateAPI :: "exception + ExchangeRateData"
  fetchCurrencyAPI :: "exception + ExchangeRateData"

definition CACHE_DURATION :: int where
  "CACHE_DURATION = 60 * 60 * 1000"

definition try_fetch ::
  "network \<Rightarrow> int \<Rightarrow> api_type \<Rightarrow> string \<Rightarrow> cache_entry option \<Rightarrow> service_state
     \<Rightarrow> (exception + ExchangeRateData option) \<times> service_state" where
  \<comment> \<open>the \<^verbatim>\<open>try\<close> block and its \<^verbatim>\<open>catch\<close>\<close>
  "try_fetch net now apiType cacheKey cached s =
     (let s1 = s\<lparr>fetches := fetches s @ [apiType]\<rparr>
      in case (if apiType = Exchangerate then fetchExchangeRateAPI net else fetchCurrencyAPI net) of
           Inr d \<Rightarrow>
             (Inr (Some d), s1\<lparr>cache := (cache s1)(cacheKey \<mapsto> \<lparr>data = d, timestamp = now\<rparr>)\<rparr>)
         | Inl error \<Rightarrow>
             (case cached of
                Some c \<Rightarrow> (Inr (Some (data c)), s1)
              | None \<Rightarrow> (Inr None, s1)))"

definition getExchangeRates ::
  "network \<Rightarrow> int \<Rightarrow> api_type \<Rightarrow> service_state
     \<Rightarrow> (exception + ExchangeRateData option) \<times> service_state" where
  "getExchangeRates net now apiType s =
     (let cacheKey = ''rates_'' @ api_name apiType;
          cached = cache s cacheKey
      in case cached of
           Some c \<Rightarrow>
             if now - timestamp c < CACHE_DURATION then (Inr (Some (data c)), s)
             else try_fetch net now apiType cacheKey cached s
         | None \<Rightarrow> try_fetch net now apiType cacheKey cached s)"

section \<open>utils/formatHelper.ts\<close>

subsection \<open>Number to string\<close>

definition digit_char :: "int \<Rightarrow> char" where
  "digit_char d = char_of (48 + d)"

function digits :: "int \<Rightarrow> string" where
  \<comment> \<open>the decimal digits of an integer that is not negative\<close>
  "digits n = (if n < 10 then [digit_char n] else digits (n div 10) @ [digit_char (n mod 10)])"
  by pat_completeness auto
termination
  by (relation "measure nat") auto

declare digits.simps [simp del]

definition number_toString :: "int \<Rightarrow> string" where
  \<comment> \<open>an integer in a template literal\<close>
  "number_toString i = (if i < 0 then ''-'' @ digits (- i) else digits i)"

definition toFixed :: "nat \<Rightarrow> real \<Rightarrow> string" where
  \<comment> \<open>\<^verbatim>\<open>Number.prototype.toFixed\<close> below \<open>10^21\<close>: the nearest multiple of \<open>10^-f\<close>, the
      larger one on a tie, written with \<open>f\<close> fraction digits. From \<open>10^21\<close> on the language
      switches to exponent notation, which is outside the model.\<close>
  "toFixed f x =
     (let s = (if x < 0 then ''-'' else []);
          n = \<lfloor>\<bar>x\<bar> * 10 ^ f + 1 / 2\<rfloor>;
          m = (if length (digits n) \<le> f
               then replicate (f + 1 - length (digits n)) (CHR ''0'') @ digits n
               else digits n);
          k = length m
      in if f = 0 then s @ m else s @ take (k - f) m @ ''.'' @ drop (k - f) m)"

subsection \<open>formatPrice\<close>

text \<open>The string literals of the source, as UTF-8 bytes.\<close>

definition str_free :: string where
  \<comment> \<open>U+514D U+8D39, "free"\<close>
  "str_free = [CHR 0xE5, CHR 0x85, CHR 0x8D, CHR 0xE8, CHR 0xB4, CHR 0xB9]"

definition str_day :: string where
  \<comment> \<open>U+5929, "day"\<close>
  "str_day = [CHR 0xE5, CHR 0xA4, CHR 0xA9]"

definition str_month :: string where
  \<comment> \<open>U+6708\<close>
  "str_month = [CHR 0xE6, CHR 0x9C, CHR 0x88]"

definition str_quarter :: string where
  \<comment> \<open>U+5B63\<close>
  "str_quarter = [CHR 0xE5, CHR 0xAD, CHR 0xA3]"

definition str_half_year :: string where
  \<comment> \<open>U+534A U+5E74\<close>
  "str_half_year = [CHR 0xE5, CHR 0x8D, CHR 0x8A, CHR 0xE5, CHR 0xB9, CHR 0xB4]"

definition str_year :: string where
  \<comment> \<open>U+5E74\<close>
  "str_year = [CHR 0xE5, CHR 0xB9, CHR 0xB4]"

definition str_two_years :: string where
  \<comment> \<open>U+4E24 U+5E74\<close>
  "str_two_years = [CHR 0xE4, CHR 0xB8, CHR 0xA4, CHR 0xE5, CHR 0xB9, CHR 0xB4]"

definition str_three_years :: string where
  \<comment> \<open>U+4E09 U+5E74\<close>
  "str_three_years = [CHR 0xE4, CHR 0xB8, CHR 0x89, CHR 0xE5, CHR 0xB9, CHR 0xB4]"

definition str_five_years :: string where
  \<comment> \<open>U+4E94 U+5E74\<close>
  "str_five_years = [CHR 0xE4, CHR 0xBA, CHR 0x94, CHR 0xE5, CHR 0xB9, CHR 0xB4]"

record price_options =
  convertedPrice :: "real option"
  targetCurrency :: "string option"
  showSymbol :: "bool option"

definition cycleStr :: "int \<Rightarrow> string" where
  \<comment> \<open>the variable \<^verbatim>\<open>cycleStr\<close> after the chain of comparisons, for a cycle that is not negative\<close>
  "cycleStr billingCycle =
     (if billingCycle = 30 \<or> billingCycle = 31 then str_month
      else if 89 \<le> billingCycle \<and> billingCycle \<le> 92 then str_quarter
      else if 180 \<le> billingCycle \<and> billingCycle \<le> 183 then str_half_year
      else if 364 \<le> billingCycle \<and> billingCycle \<le> 366 then str_year
      else if 730 \<le> billingCycle \<and> billingCycle \<le> 732 then str_two_years
      else if 1095 \<le> billingCycle \<and> billingCycle \<le> 1097 then str_three_years
      else if 1825 \<le> billingCycle \<and> billingCycle \<le> 1827 then str_five_years
      else number_toString billingCycle @ str_day)"

definition formatPrice :: "real \<Rightarrow> string \<Rightarrow> int \<Rightarrow> price_options option \<Rightarrow> string" where
  \<comment> \<open>a missing currency is the empty string\<close>
  "formatPrice price currency billingCycle options =
     (if price = - 1 then str_free
      else if price = 0 then []
      else if currency = [] \<or> billingCycle = 0 then ''N/A''
      else
        let finalPrice =
              (case options of
                 None \<Rightarrow> price
               | Some opt \<Rightarrow> (case convertedPrice opt of None \<Rightarrow> price | Some p \<Rightarrow> p));
            finalCurrency =
              (case options of
                 None \<Rightarrow> currency
               | Some opt \<Rightarrow> (case targetCurrency opt of None \<Rightarrow> currency | Some c \<Rightarrow> c));
            symbol =
              (case options of
                 None \<Rightarrow> True
               | Some opt \<Rightarrow> (case showSymbol opt of None \<Rightarrow> True | Some b \<Rightarrow> b))
        in if billingCycle < 0
           then (if symbol then finalCurrency @ toFixed 2 finalPrice else toFixed 2 finalPrice)
           else (if symbol
                 then finalCurrency @ toFixed 2 finalPrice @ ''/'' @ cycleStr billingCycle
                 else toFixed 2 finalPrice @ ''/'' @ cycleStr billingCycle))"

subsection \<open>calculateRemainingValue\<close>

text \<open>
  The expiry is a string or null. \<open>No_Expiry\<close> is null or the empty string,
  \<open>Invalid_Date\<close> a string that \<^verbatim>\<open>new Date\<close> cannot parse (its time value is NaN), and
  \<open>Expires t\<close> a string that parses to the time value \<open>t\<close>, in milliseconds. The clock
  \<^verbatim>\<open>new Date()\<close> is the argument \<open>now\<close>.
\<close>

datatype expired_at = No_Expiry | Invalid_Date | Expires int

definition msPerDay :: int where
  "msPerDay = 1000 * 60 * 60 * 24"

definition calculateRemainingValue :: "real \<Rightarrow> int \<Rightarrow> expired_at \<Rightarrow> int \<Rightarrow> number" where
  "calculateRemainingValue price billingCycle expiredAt now =
     (if price = - 1 \<or> price = 0 \<or> expiredAt = No_Expiry \<or> billingCycle \<le> 0 then Num 0
      else
        (case expiredAt of
           No_Expiry \<Rightarrow> Num 0
         | Invalid_Date \<Rightarrow> NaN
         | Expires t \<Rightarrow>
             let remainingDays = max 0 \<lceil>real_of_int (t - now) / real_of_int msPerDay\<rceil>;
                 dailyValue = js_div price (real_of_int billingCycle)
             in Num (js_mul (real_of_int remainingDays) dailyValue)))"


section \<open>contexts/ExchangeRateContext.tsx\<close>

definition useExchangeRate_convertCurrency ::
  "ExchangeRateData option \<Rightarrow> string \<Rightarrow> real \<Rightarrow> string \<Rightarrow> string option \<Rightarrow> real" where
  \<comment> \<open>the callback \<^verbatim>\<open>convertCurrency\<close> of the context, for the state \<open>rates\<close> and the
      selected \<open>currentCurrency\<close>; an absent or empty \<open>toCurrency\<close> is the selected one\<close>
  "useExchangeRate_convertCurrency rs currentCurrency amount fromCurrency toCurrency =
     (case rs of
        None \<Rightarrow> amount
      | Some r \<Rightarrow>
          let target = (case toCurrency of
                          None \<Rightarrow> currentCurrency
                        | Some c \<Rightarrow> if c = [] then currentCurrency else c)
          in convertCurrency amount fromCurrency target r)"

section \<open>The renewal summary of the home page\<close>

text \<open>
  \<^verbatim>\<open>buildRenewalSummary\<close> reads five fields of each node. The window bounds are the time
  values of two valid dates. The conversion callback of the context is the argument
  \<open>convert\<close>. A billing cycle is an integer, so the period in milliseconds is finite.
\<close>

record node =
  name :: string
  price :: real
  billing_cycle :: int
  currency :: string
  expired_at :: expired_at

record event =
  ev_name :: string
  ev_date :: int
  ev_amount :: real

function renewal_loop ::
  "(real \<Rightarrow> string \<Rightarrow> real) \<Rightarrow> node \<Rightarrow> int \<Rightarrow> int \<Rightarrow> int \<Rightarrow> real \<times> event list
     \<Rightarrow> real \<times> event list" where
  \<comment> \<open>\<^verbatim>\<open>for (let t = baseMs; t <= endMs; t += periodMs)\<close>; the loop is entered with a
      positive period only; \<open>tot\<close> is the variable \<^verbatim>\<open>total\<close>\<close>
  "renewal_loop convert n periodMs endMs t (tot, events) =
     (if 0 < periodMs \<and> t \<le> endMs
      then
        (let converted = convert (price n) (currency n)
         in renewal_loop convert n periodMs endMs (t + periodMs)
              (js_add tot converted,
               events @ [\<lparr>ev_name = name n, ev_date = t, ev_amount = converted\<rparr>]))
      else (tot, events))"
  by pat_completeness auto
termination
  by (relation "measure (\<lambda>(convert, n, periodMs, endMs, t, acc). nat (endMs - t + 1))") auto

declare renewal_loop.simps [simp del]

definition renew_node ::
  "(real \<Rightarrow> string \<Rightarrow> real) \<Rightarrow> int \<Rightarrow> int \<Rightarrow> node \<Rightarrow> real \<times> event list \<Rightarrow> real \<times> event list" where
  \<comment> \<open>one pass of the loop over the nodes\<close>
  "renew_node convert startMs endMs n acc =
     (if price n \<le> 0 then acc
      else if billing_cycle n \<le> 0 then acc
      else
        (case expired_at n of
           No_Expiry \<Rightarrow> acc
         | Invalid_Date \<Rightarrow> acc
         | Expires base_time \<Rightarrow>
             let periodMs = billing_cycle n * 24 * 60 * 60 * 1000
             in if periodMs \<le> 0 then acc
                else
                  let baseMs =
                        (if base_time < startMs
                         then
                           (let k = \<lfloor>real_of_int (startMs - base_time) / real_of_int periodMs\<rfloor> + 1
                            in base_time + k * periodMs)
                         else base_time)
                  in renewal_loop convert n periodMs endMs baseMs acc))"

definition buildRenewalSummary ::
  "(real \<Rightarrow> string \<Rightarrow> real) \<Rightarrow> int \<Rightarrow> int \<Rightarrow> node list \<Rightarrow> real \<times> event list" where
  \<comment> \<open>the pair is \<^verbatim>\<open>{ total, events }\<close>; the sort of the language is stable, as \<open>sort_key\<close> is\<close>
  "buildRenewalSummary convert startMs endMs filteredNodes =
     (let (tot, events) = fold (renew_node convert startMs endMs) filteredNodes (0, [])
      in (tot, sort_key ev_date events))"

text \<open>
  Four notions that are used to state what the summary contains: the events of one node,
  the anchor after its advance, the number of renewal times up to the end of the window,
  and the event of one renewal time.
\<close>

definition node_events :: "(real \<Rightarrow> string \<Rightarrow> real) \<Rightarrow> int \<Rightarrow> int \<Rightarrow> node \<Rightarrow> event list" where
  \<comment> \<open>the events that the pass over one node pushes\<close>
  "node_events convert startMs endMs n = snd (renew_node convert startMs endMs n (0, []))"

definition renewal_anchor :: "int \<Rightarrow> int \<Rightarrow> int \<Rightarrow> int" where
  \<comment> \<open>the anchor \<open>base_time\<close>, moved forward by \<open>k\<close> periods when it precedes the window\<close>
  "renewal_anchor startMs base_time periodMs =
     (if base_time < startMs
      then base_time + ((startMs - base_time) div periodMs + 1) * periodMs
      else base_time)"

definition renewal_count :: "int \<Rightarrow> int \<Rightarrow> int \<Rightarrow> nat" where
  \<comment> \<open>how many of \<open>t, t + periodMs, t + 2 periodMs, ...\<close> are at or before \<open>endMs\<close>\<close>
  "renewal_count t endMs periodMs =
     (if t \<le> endMs then nat ((endMs - t) div periodMs + 1) else 0)"

definition renewal_event :: "(real \<Rightarrow> string \<Rightarrow> real) \<Rightarrow> node \<Rightarrow> int \<Rightarrow> event" where
  \<comment> \<open>the object that the loop pushes for the time \<open>t\<close>\<close>
  "renewal_event convert n t =
     \<lparr>ev_name = name n, ev_date = t, ev_amount = convert (price n) (currency n)\<rparr>"

section \<open>components/ui/remaining-value-panel.tsx\<close>

text \<open>
  The panel works on local calendar days: \<^verbatim>\<open>new Date(y, m, d)\<close> is the midnight that
  starts the local day. Local time is taken at a fixed offset \<open>tz\<close> from UTC, in
  milliseconds (no daylight saving change between the two dates).
\<close>

definition local_midnight :: "int \<Rightarrow> int \<Rightarrow> int" where
  "local_midnight tz t = t - (t + tz) mod msPerDay"

definition str_pay :: string where
  \<comment> \<open>U+4ED8\<close>
  "str_pay = [CHR 0xE4, CHR 0xBB, CHR 0x98]"

record cycle_info =
  cycle_days :: int
  cycle_label :: string
  cycle_unit :: string

definition mapCycleToDays :: "int \<Rightarrow> cycle_info" where
  "mapCycleToDays billingCycle =
     (if 28 \<le> billingCycle \<and> billingCycle \<le> 31
      then \<lparr>cycle_days = 30, cycle_label = str_month @ str_pay, cycle_unit = str_month\<rparr>
      else if 89 \<le> billingCycle \<and> billingCycle \<le> 92
      then \<lparr>cycle_days = 90, cycle_label = str_quarter @ str_pay, cycle_unit = str_quarter\<rparr>
      else if 180 \<le> billingCycle \<and> billingCycle \<le> 184
      then \<lparr>cycle_days = 180, cycle_label = str_half_year @ str_pay, cycle_unit = str_half_year\<rparr>
      else if 364 \<le> billingCycle \<and> billingCycle \<le> 366
      then \<lparr>cycle_days = 365, cycle_label = str_year @ str_pay, cycle_unit = str_year\<rparr>
      else \<lparr>cycle_days = max 1 billingCycle,
            cycle_label = number_toString billingCycle @ str_day,
            cycle_unit = number_toString billingCycle @ str_day\<rparr>)"

definition panel_remainingDays :: "int \<Rightarrow> expired_at \<Rightarrow> int \<Rightarrow> number" where
  "panel_remainingDays tz expiredAt now =
     (case expiredAt of
        No_Expiry \<Rightarrow> Num 0
      | Invalid_Date \<Rightarrow> NaN
      | Expires t \<Rightarrow>
          Num (real_of_int
            (max 0 \<lfloor>real_of_int (local_midnight tz t - local_midnight tz now)
                      / real_of_int msPerDay\<rfloor>)))"

definition panel_remainingValue :: "int \<Rightarrow> real \<Rightarrow> int \<Rightarrow> expired_at \<Rightarrow> int \<Rightarrow> number" where
  \<comment> \<open>\<^verbatim>\<open>(price / cycle.days) * remainingDays\<close>\<close>
  "panel_remainingValue tz price' billingCycle expiredAt now =
     (case panel_remainingDays tz expiredAt now of
        NaN \<Rightarrow> NaN
      | Num d \<Rightarrow> Num (js_mul (js_div price' (real_of_int (cycle_days (mapCycleToDays billingCycle)))) d))"

section \<open>The formulas of the specification\<close>

text \<open>The specification measures the remaining days between local midnights.\<close>

definition spec_remainingDays :: "int \<Rightarrow> int \<Rightarrow> int \<Rightarrow> int" where
  "spec_remainingDays tz expiresAt now =
     max 0 \<lfloor>real_of_int (local_midnight tz expiresAt - local_midnight tz now) / real_of_int msPerDay\<rfloor>"

definition spec_remainingValue :: "int \<Rightarrow> real \<Rightarrow> int \<Rightarrow> int \<Rightarrow> int \<Rightarrow> real" where
  "spec_remainingValue tz price' cycleDays expiresAt now =
     js_mul (real_of_int (spec_remainingDays tz expiresAt now)) (js_div price' (real_of_int cycleDays))"

text \<open>The tolerance bands of the specification's table.\<close>

definition spec_cycle_label :: "int \<Rightarrow> string" where
  "spec_cycle_label cycleDays =
     (if 28 \<le> cycleDays \<and> cycleDays \<le> 31 then str_month
      else if 89 \<le> cycleDays \<and> cycleDays \<le> 92 then str_quarter
      else if 180 \<le> cycleDays \<and> cycleDays \<le> 184 then str_half_year
      else if 364 \<le> cycleDays \<and> cycleDays \<le> 366 then str_year
      else if 730 \<le> cycleDays \<and> cycleDays \<le> 732 then str_two_years
      else if 1095 \<le> cycleDays \<and> cycleDays \<le> 1097 then str_three_years
      else if 1825 \<le> cycleDays \<and> cycleDays \<le> 1827 then str_five_years
      else number_toString cycleDays @ str_day)"

text \<open>The bands that \<^verbatim>\<open>formatPrice\<close> implements, as a table of inclusive ranges.\<close>

definition formatPrice_bands :: "(int \<times> int \<times> string) list" where
  "formatPrice_bands =
     [(30, 31, str_month), (89, 92, str_quarter), (180, 183, str_half_year),
      (364, 366, str_year), (730, 732, str_two_years), (1095, 1097, str_three_years),
      (1825, 1827, str_five_years)]"

fun band_label :: "(int \<times> int \<times> string) list \<Rightarrow> int \<Rightarrow> string" where
  "band_label [] d = number_toString d @ str_day"
| "band_label ((lo, hi, l) # bs) d = (if lo \<le> d \<and> d \<le> hi then l else band_label bs d)"


section \<open>Example inputs\<close>

definition usd_table :: ExchangeRateData where
  \<comment> \<open>a rate table with base USD\<close>
  "usd_table = \<lparr>base = ''USD'', date = ''2025-01-01'', rates = [''CNY'' \<mapsto> 7.25], lastUpdated = None\<rparr>"

definition example_convert :: "real \<Rightarrow> string \<Rightarrow> real" where
  \<comment> \<open>the conversion callback of the context with \<open>usd_table\<close> loaded and USD selected\<close>
  "example_convert amount c = useExchangeRate_convertCurrency (Some usd_table) ''USD'' amount c None"

definition monthly_node :: node where
  \<comment> \<open>expired on 2024-12-20, renewed every 30 days\<close>
  "monthly_node =
     \<lparr>name = ''tokyo'', price = 15, billing_cycle = 30, currency = ''$'',
      expired_at = Expires 1734652800000\<rparr>"

definition weekly_node :: node where
  \<comment> \<open>expires on 2025-01-10, renewed every 7 days\<close>
  "weekly_node =
     \<lparr>name = ''paris'', price = 10, billing_cycle = 7, currency = ''USD'',
      expired_at = Expires 1736467200000\<rparr>"

definition free_node :: node where
  \<comment> \<open>a free node: the price is the sentinel -1\<close>
  "free_node =
     \<lparr>name = ''oslo'', price = - 1, billing_cycle = 30, currency = ''$'',
      expired_at = Expires 1736467200000\<rparr>"

section \<open>Properties of the rounding\<close>

lemma pow2_powi: "pow2 e = 2 powi e"
  by (simp add: pow2_def power_int_def inverse_eq_divide power_one_over)

lemma pow2_pos: "0 < pow2 e"
  by (simp add: pow2_powi)

lemma pow2_mono: "a \<le> b \<Longrightarrow> pow2 a \<le> pow2 b"
  by (simp add: pow2_powi power_int_increasing)

lemma pow2_add: "pow2 (a + b) = pow2 a * pow2 b"
  by (simp add: pow2_powi power_int_add)

lemma ilog2_bounds:
  assumes "0 < x"
  shows "pow2 (ilog2 x) \<le> x" and "x < pow2 (ilog2 x + 1)"
proof -
  have "pow2 (ilog2 x) \<le> x \<and> x < pow2 (ilog2 x + 1)"
  proof (cases "1 \<le> x")
    case True
    define n where "n = nat \<lfloor>x\<rfloor>"
    have n: "0 < n" "real n \<le> x" "x < real n + 1"
      using True by (auto simp: n_def)
    define b where "b = floorlog 2 n"
    have fb: "2 ^ (b - 1) \<le> n" "n < 2 ^ b"
      using floorlog_bounds[of n 2] n(1) by (auto simp: b_def)
    have bpos: "0 < b" using n(1) by (simp add: b_def floorlog_def)
    have il: "ilog2 x = int b - 1" using True by (simp add: ilog2_def b_def n_def)
    have lo: "(2::real) ^ (b - 1) \<le> x"
    proof -
      have "(2::real) ^ (b - 1) \<le> real n" using of_nat_mono[OF fb(1), where 'a = real] by simp
      then show ?thesis using n(2) by linarith
    qed
    have "n + 1 \<le> 2 ^ b" using fb(2) by simp
    then have "real n + 1 \<le> 2 ^ b"
      using of_nat_mono[of "n + 1" "2 ^ b", where 'a = real] by simp
    then have hi: "x < 2 ^ b" using n(3) by linarith
    have e1: "pow2 (int b - 1) = 2 ^ (b - 1)" using bpos by (simp add: pow2_def nat_diff_distrib)
    have e2: "pow2 (int b - 1 + 1) = 2 ^ b" by (simp add: pow2_def)
    show ?thesis using lo hi unfolding il e1 e2 by simp
  next
    case False
    then have x1: "x < 1" by simp
    define y where "y = 1 / x"
    have y1: "1 < y" using assms x1 by (simp add: y_def)
    define m where "m = nat (\<lceil>y\<rceil> - 1)"
    have "2 \<le> \<lceil>y\<rceil>" using y1 by (simp add: le_ceiling_iff less_ceiling_iff)
    then have m: "0 < m" "real m < y" "y \<le> real m + 1"
      unfolding m_def by (auto simp: less_ceiling_iff) (linarith)+
    define b where "b = floorlog 2 m"
    have fb: "2 ^ (b - 1) \<le> m" "m < 2 ^ b"
      using floorlog_bounds[of m 2] m(1) by (auto simp: b_def)
    have bpos: "0 < b" using m(1) by (simp add: b_def floorlog_def)
    have il: "ilog2 x = - int b" using False by (simp add: ilog2_def b_def m_def y_def)
    have "(2::real) ^ (b - 1) \<le> real m" using of_nat_mono[OF fb(1), where 'a = real] by simp
    then have ylo: "(2::real) ^ (b - 1) < y" using m(2) by linarith
    have "m + 1 \<le> 2 ^ b" using fb(2) by simp
    then have "real m + 1 \<le> 2 ^ b"
      using of_nat_mono[of "m + 1" "2 ^ b", where 'a = real] by simp
    then have yhi: "y \<le> 2 ^ b" using m(3) by linarith
    have e1: "pow2 (- int b) = 1 / 2 ^ b" using bpos by (simp add: pow2_def)
    have e2: "pow2 (- int b + 1) = 1 / 2 ^ (b - 1)"
      using bpos by (cases b) (simp_all add: pow2_def nat_diff_distrib nat_add_distrib)
    have lo: "1 / 2 ^ b \<le> x"
      using yhi assms by (simp add: y_def field_simps)
    have hi: "x < 1 / 2 ^ (b - 1)"
      using ylo assms by (simp add: y_def field_simps)
    show ?thesis using lo hi unfolding il e1 e2 by simp
  qed
  then show "pow2 (ilog2 x) \<le> x" and "x < pow2 (ilog2 x + 1)" by simp_all
qed


lemma roundTiesToEven_ge: "of_int n \<le> x \<Longrightarrow> n \<le> roundTiesToEven x"
proof -
  assume "of_int n \<le> x"
  then have "n \<le> \<lfloor>x\<rfloor>" by (simp add: le_floor_iff)
  moreover have "\<lfloor>x\<rfloor> \<le> roundTiesToEven x" by (simp add: roundTiesToEven_def Let_def)
  ultimately show ?thesis by linarith
qed

lemma roundTiesToEven_le: "x \<le> of_int n \<Longrightarrow> roundTiesToEven x \<le> n"
proof -
  assume a: "x \<le> of_int n"
  show ?thesis
  proof (cases "x = of_int n")
    case True
    then show ?thesis by (simp add: roundTiesToEven_def Let_def)
  next
    case False
    then have "x < of_int n" using a by simp
    then have "\<lfloor>x\<rfloor> < n" by (simp add: floor_less_iff)
    moreover have "roundTiesToEven x \<le> \<lfloor>x\<rfloor> + 1" by (simp add: roundTiesToEven_def Let_def)
    ultimately show ?thesis by linarith
  qed
qed

lemma roundTiesToEven_mono: "x \<le> y \<Longrightarrow> roundTiesToEven x \<le> roundTiesToEven y"
proof -
  assume xy: "x \<le> y"
  then have fl: "\<lfloor>x\<rfloor> \<le> \<lfloor>y\<rfloor>" by (rule floor_mono)
  show ?thesis
  proof (cases "\<lfloor>x\<rfloor> = \<lfloor>y\<rfloor>")
    case True
    then have "x - of_int \<lfloor>x\<rfloor> \<le> y - of_int \<lfloor>y\<rfloor>" using xy by simp
    then show ?thesis using True by (auto simp: roundTiesToEven_def Let_def)
  next
    case False
    then have "\<lfloor>x\<rfloor> + 1 \<le> \<lfloor>y\<rfloor>" using fl by linarith
    moreover have "roundTiesToEven x \<le> \<lfloor>x\<rfloor> + 1" by (simp add: roundTiesToEven_def Let_def)
    moreover have "\<lfloor>y\<rfloor> \<le> roundTiesToEven y" by (simp add: roundTiesToEven_def Let_def)
    ultimately show ?thesis by linarith
  qed
qed

lemma binary64_pos_eq:
  "0 < x \<Longrightarrow> binary64 x = of_int (roundTiesToEven (x / pow2 (ilog2 x - 52))) * pow2 (ilog2 x - 52)"
  by (simp add: binary64_def Let_def)

lemma binary64_minus: "binary64 (- x) = - binary64 x"
  by (simp add: binary64_def Let_def sgn_minus)

lemma binary64_zero: "binary64 0 = 0"
  by (simp add: binary64_def)

lemma binary64_binade:
  assumes "0 < x"
  shows "pow2 (ilog2 x) \<le> binary64 x" and "binary64 x \<le> pow2 (ilog2 x + 1)"
proof -
  define e where "e = ilog2 x - 52"
  define q where "q = x / pow2 e"
  have pe: "0 < pow2 e" by (rule pow2_pos)
  have p: "pow2 52 = 2 ^ 52" "pow2 53 = 2 ^ 53" by (simp_all add: pow2_def)
  have i: "ilog2 x = 52 + e" "ilog2 x + 1 = 53 + e" by (simp_all add: e_def)
  have k: "pow2 (ilog2 x) = 2 ^ 52 * pow2 e" "pow2 (ilog2 x + 1) = 2 ^ 53 * pow2 e"
    by (subst i, subst pow2_add, simp add: p)+
  have "2 ^ 52 * pow2 e \<le> x" "x < 2 ^ 53 * pow2 e"
    using ilog2_bounds[OF assms] k by simp_all
  then have q: "of_int (2 ^ 52) \<le> q" "q \<le> of_int (2 ^ 53)"
    using pe by (simp_all add: q_def field_simps)
  have m: "2 ^ 52 \<le> roundTiesToEven q" "roundTiesToEven q \<le> 2 ^ 53"
    using roundTiesToEven_ge[OF q(1)] roundTiesToEven_le[OF q(2)] by simp_all
  have b: "binary64 x = of_int (roundTiesToEven q) * pow2 e"
    using assms by (simp add: binary64_pos_eq q_def e_def)
  have "(2::real) ^ 52 \<le> of_int (roundTiesToEven q)" "of_int (roundTiesToEven q) \<le> (2::real) ^ 53"
    using m of_int_le_iff[of "2 ^ 52" "roundTiesToEven q", where 'a = real]
      of_int_le_iff[of "roundTiesToEven q" "2 ^ 53", where 'a = real] by simp_all
  then have "2 ^ 52 * pow2 e \<le> binary64 x" "binary64 x \<le> 2 ^ 53 * pow2 e"
    using pe unfolding b by (simp_all add: mult_right_mono)
  then show "pow2 (ilog2 x) \<le> binary64 x" and "binary64 x \<le> pow2 (ilog2 x + 1)"
    using k by simp_all
qed

lemma binary64_pos_mono:
  assumes "0 < x" "x \<le> y"
  shows "binary64 x \<le> binary64 y"
proof -
  have y: "0 < y" using assms by linarith
  have "pow2 (ilog2 x) < pow2 (ilog2 y + 1)"
    using ilog2_bounds(1)[OF assms(1)] ilog2_bounds(2)[OF y] assms(2) by linarith
  then have "ilog2 x < ilog2 y + 1"
    using pow2_mono[of "ilog2 y + 1" "ilog2 x"] by (cases "ilog2 x < ilog2 y + 1") auto
  then consider "ilog2 x = ilog2 y" | "ilog2 x + 1 \<le> ilog2 y" by linarith
  then show ?thesis
  proof cases
    case 1
    have "x / pow2 (ilog2 y - 52) \<le> y / pow2 (ilog2 y - 52)"
      using assms(2) pow2_pos[of "ilog2 y - 52"] by (simp add: divide_right_mono)
    then have "roundTiesToEven (x / pow2 (ilog2 y - 52)) \<le> roundTiesToEven (y / pow2 (ilog2 y - 52))"
      by (rule roundTiesToEven_mono)
    then have "(of_int (roundTiesToEven (x / pow2 (ilog2 y - 52))) :: real)
                 \<le> of_int (roundTiesToEven (y / pow2 (ilog2 y - 52)))"
      by simp
    then show ?thesis
      using pow2_pos[of "ilog2 y - 52"] assms(1) y
      by (simp add: binary64_pos_eq 1 mult_right_mono)
  next
    case 2
    have "binary64 x \<le> pow2 (ilog2 x + 1)" by (rule binary64_binade(2)[OF assms(1)])
    also have "\<dots> \<le> pow2 (ilog2 y)" by (rule pow2_mono[OF 2])
    also have "\<dots> \<le> binary64 y" by (rule binary64_binade(1)[OF y])
    finally show ?thesis .
  qed
qed

lemma binary64_nonneg: "0 \<le> x \<Longrightarrow> 0 \<le> binary64 x"
proof (cases "x = 0")
  case True
  then show ?thesis by (simp add: binary64_zero)
next
  case False
  assume "0 \<le> x"
  then have x: "0 < x" using False by simp
  have "0 < pow2 (ilog2 x)" by (rule pow2_pos)
  then show ?thesis using binary64_binade(1)[OF x] by linarith
qed

lemma binary64_mono: "x \<le> y \<Longrightarrow> binary64 x \<le> binary64 y"
proof -
  assume xy: "x \<le> y"
  consider "0 < x" | "x \<le> 0" "0 \<le> y" | "y < 0" using xy by linarith
  then show ?thesis
  proof cases
    case 1
    then show ?thesis using xy by (rule binary64_pos_mono)
  next
    case 2
    have "0 \<le> binary64 (- x)" using 2(1) by (simp add: binary64_nonneg)
    then have "binary64 x \<le> 0" by (simp add: binary64_minus)
    moreover have "0 \<le> binary64 y" using 2(2) by (rule binary64_nonneg)
    ultimately show ?thesis by linarith
  next
    case 3
    then have "0 < - y" "- y \<le> - x" using xy by simp_all
    then have "binary64 (- y) \<le> binary64 (- x)" by (rule binary64_pos_mono)
    then show ?thesis by (simp add: binary64_minus)
  qed
qed

lemma binary64_one: "binary64 1 = 1"
  by (simp add: binary64_def ilog2_def compute_floorlog pow2_def roundTiesToEven_def)


section \<open>Currency conversion\<close>

lemma upper_char_idem: "upper_char (upper_char c) = upper_char c"
proof -
  have "of_char (char_of (of_char c - (32::nat))) = (of_char c - (32::nat)) mod 256"
    by (rule of_char_of)
  then show ?thesis
    by (auto simp: upper_char_def Let_def)
qed

lemma toUpperCase_idem: "toUpperCase (toUpperCase s) = toUpperCase s"
  by (simp add: toUpperCase_def upper_char_idem)

lemma currencyMap_values_upper:
  "\<forall>(k, v) \<in> set currencyMap_entries. toUpperCase v = v"
  by (simp add: currencyMap_entries_def toUpperCase_def upper_char_def)

lemma currencyMap_upper: "currencyMap k = Some v \<Longrightarrow> toUpperCase v = v"
  using currencyMap_values_upper map_of_SomeD[of currencyMap_entries k v]
  by (auto simp: currencyMap_def)

lemma normalizeCurrencyCode_upper:
  "toUpperCase (normalizeCurrencyCode c) = normalizeCurrencyCode c"
  by (auto simp: normalizeCurrencyCode_def toUpperCase_idem currencyMap_upper split: option.splits)

lemma getCurrencyRate_cases:
  "getCurrencyRate c r =
     (if normalizeCurrencyCode c = base r then Some 1
      else case rates r (normalizeCurrencyCode c) of
             None \<Rightarrow> None
           | Some v \<Rightarrow> if v = 0 then None else Some v)"
  by (simp add: getCurrencyRate_def Let_def normalizeCurrencyCode_upper)

lemma getCurrencyRate_nonzero: "getCurrencyRate c r \<noteq> Some 0"
  by (simp add: getCurrencyRate_cases split: option.splits)

text \<open>
  Claim C6. For every amount, pair of currency identifiers and rate table: if the resolved
  code of either identifier is neither the base of the table nor a key of its rates,
  \<open>convertCurrency\<close> returns the amount unchanged.
\<close>

theorem convertCurrency_unavailable:
  assumes "normalizeCurrencyCode fromCurrency \<noteq> base r \<and> rates r (normalizeCurrencyCode fromCurrency) = None
         \<or> normalizeCurrencyCode toCurrency \<noteq> base r \<and> rates r (normalizeCurrencyCode toCurrency) = None"
  shows "convertCurrency amount fromCurrency toCurrency r = amount"
  using assms
  by (auto simp: convertCurrency_def getCurrencyRate_cases split: option.splits)

text \<open>The scenario of the specification: "XYZ" to "USD" with a table that lacks "XYZ".\<close>

theorem convertCurrency_unavailable_witness:
  "normalizeCurrencyCode ''XYZ'' \<noteq> base \<lparr>base = ''USD'', date = ''2025-01-01'', rates = [''CNY'' \<mapsto> 7.25], lastUpdated = None\<rparr>
   \<and> rates \<lparr>base = ''USD'', date = ''2025-01-01'', rates = [''CNY'' \<mapsto> 7.25], lastUpdated = None\<rparr>
         (normalizeCurrencyCode ''XYZ'') = None
   \<and> convertCurrency 10 ''XYZ'' ''USD''
         \<lparr>base = ''USD'', date = ''2025-01-01'', rates = [''CNY'' \<mapsto> 7.25], lastUpdated = None\<rparr> = 10
   \<and> convertCurrency 10 ''CNY'' ''XYZ''
         \<lparr>base = ''USD'', date = ''2025-01-01'', rates = [''CNY'' \<mapsto> 7.25], lastUpdated = None\<rparr> = 10"
proof -
  have n: "normalizeCurrencyCode ''XYZ'' = ''XYZ''" by code_simp
  have h: "normalizeCurrencyCode ''XYZ'' \<noteq> base \<lparr>base = ''USD'', date = ''2025-01-01'', rates = [''CNY'' \<mapsto> 7.25], lastUpdated = None\<rparr>
   \<and> rates \<lparr>base = ''USD'', date = ''2025-01-01'', rates = [''CNY'' \<mapsto> 7.25], lastUpdated = None\<rparr>
         (normalizeCurrencyCode ''XYZ'') = None"
    by (simp add: n)
  from h convertCurrency_unavailable[of "''XYZ''" _ "''USD''" 10]
    convertCurrency_unavailable[of "''CNY''" _ "''XYZ''" 10]
  show ?thesis by blast
qed

text \<open>
  Claim C9 says that, for every input, a rate stored as exactly 0 is treated as
  unavailable and the conversion returns the amount unchanged. The rate of the base of
  the table is never looked up: it is the constant 1, whatever the table stores for it. A
  table with base "USD" that stores 0 for "USD" and 7.25 for "CNY" converts 10 "USD" to
  72.5 "CNY".
\<close>

theorem convertCurrency_base_zero_counterexample:
  "rates \<lparr>base = ''USD'', date = ''2025-01-01'', rates = [''USD'' \<mapsto> 0, ''CNY'' \<mapsto> 7.25], lastUpdated = None\<rparr>
        (normalizeCurrencyCode ''USD'') = Some 0
   \<and> getCurrencyRate ''USD''
        \<lparr>base = ''USD'', date = ''2025-01-01'', rates = [''USD'' \<mapsto> 0, ''CNY'' \<mapsto> 7.25], lastUpdated = None\<rparr>
      = Some 1
   \<and> convertCurrency 10 ''USD'' ''CNY''
        \<lparr>base = ''USD'', date = ''2025-01-01'', rates = [''USD'' \<mapsto> 0, ''CNY'' \<mapsto> 7.25], lastUpdated = None\<rparr>
      = 72.5
   \<and> convertCurrency 10 ''USD'' ''CNY''
        \<lparr>base = ''USD'', date = ''2025-01-01'', rates = [''USD'' \<mapsto> 0, ''CNY'' \<mapsto> 7.25], lastUpdated = None\<rparr>
      \<noteq> 10"
  by code_simp

text \<open>
  Claim C9, amended. \<open>convertCurrency\<close> never divides by zero. The rate of a currency is
  never the number 0. For a currency other than the base of the table, a rate stored as
  exactly 0 is looked up as null, and the conversion from or to that currency returns the
  amount unchanged; for the base the rate is 1 and the table is not consulted. Every call
  either returns the amount unchanged or divides by a rate that is not 0.
\<close>

theorem convertCurrency_nonzero_divisor:
  "getCurrencyRate c r \<noteq> Some 0
   \<and> (normalizeCurrencyCode c \<noteq> base r \<and> rates r (normalizeCurrencyCode c) = Some 0 \<longrightarrow>
        getCurrencyRate c r = None
        \<and> convertCurrency amount c other r = amount
        \<and> convertCurrency amount other c r = amount)
   \<and> (normalizeCurrencyCode c = base r \<longrightarrow> getCurrencyRate c r = Some 1)
   \<and> (convertCurrency amount fromCurrency toCurrency r = amount
        \<or> (\<exists>fromRate toRate.
              fromRate \<noteq> 0
              \<and> getCurrencyRate fromCurrency r = Some fromRate
              \<and> getCurrencyRate toCurrency r = Some toRate
              \<and> convertCurrency amount fromCurrency toCurrency r = js_mul (js_div amount fromRate) toRate))"
proof (intro conjI impI)
  show "getCurrencyRate c r \<noteq> Some 0" by (rule getCurrencyRate_nonzero)
next
  assume a: "normalizeCurrencyCode c \<noteq> base r \<and> rates r (normalizeCurrencyCode c) = Some 0"
  then show n: "getCurrencyRate c r = None" by (simp add: getCurrencyRate_cases)
  show "convertCurrency amount c other r = amount"
    by (simp add: convertCurrency_def n)
  show "convertCurrency amount other c r = amount"
    by (simp add: convertCurrency_def n split: option.splits)
next
  assume "normalizeCurrencyCode c = base r"
  then show "getCurrencyRate c r = Some 1" by (simp add: getCurrencyRate_cases)
next
  show "convertCurrency amount fromCurrency toCurrency r = amount
        \<or> (\<exists>fromRate toRate.
              fromRate \<noteq> 0
              \<and> getCurrencyRate fromCurrency r = Some fromRate
              \<and> getCurrencyRate toCurrency r = Some toRate
              \<and> convertCurrency amount fromCurrency toCurrency r = js_mul (js_div amount fromRate) toRate)"
    using getCurrencyRate_nonzero[of fromCurrency r]
    by (auto simp: convertCurrency_def split: option.splits)
qed

text \<open>
  A table that stores the rate 0 for "EUR", and one that stores 0 for its own base.
\<close>

theorem convertCurrency_nonzero_divisor_witness:
  "normalizeCurrencyCode ''EUR'' \<noteq> base \<lparr>base = ''USD'', date = ''2025-01-01'', rates = [''EUR'' \<mapsto> 0], lastUpdated = None\<rparr>
   \<and> rates \<lparr>base = ''USD'', date = ''2025-01-01'', rates = [''EUR'' \<mapsto> 0], lastUpdated = None\<rparr>
         (normalizeCurrencyCode ''EUR'') = Some 0
   \<and> getCurrencyRate ''EUR'' \<lparr>base = ''USD'', date = ''2025-01-01'', rates = [''EUR'' \<mapsto> 0], lastUpdated = None\<rparr> = None
   \<and> convertCurrency 10 ''EUR'' ''USD''
         \<lparr>base = ''USD'', date = ''2025-01-01'', rates = [''EUR'' \<mapsto> 0], lastUpdated = None\<rparr> = 10
   \<and> convertCurrency 10 ''USD'' ''EUR''
         \<lparr>base = ''USD'', date = ''2025-01-01'', rates = [''EUR'' \<mapsto> 0], lastUpdated = None\<rparr> = 10
   \<and> normalizeCurrencyCode ''$''
         = base \<lparr>base = ''USD'', date = ''2025-01-01'', rates = [''USD'' \<mapsto> 0, ''CNY'' \<mapsto> 7.25], lastUpdated = None\<rparr>
   \<and> getCurrencyRate ''$''
         \<lparr>base = ''USD'', date = ''2025-01-01'', rates = [''USD'' \<mapsto> 0, ''CNY'' \<mapsto> 7.25], lastUpdated = None\<rparr>
       = Some 1"
proof -
  have n: "normalizeCurrencyCode ''EUR'' = ''EUR''" by code_simp
  have h: "normalizeCurrencyCode ''EUR'' \<noteq> base \<lparr>base = ''USD'', date = ''2025-01-01'', rates = [''EUR'' \<mapsto> 0], lastUpdated = None\<rparr>
   \<and> rates \<lparr>base = ''USD'', date = ''2025-01-01'', rates = [''EUR'' \<mapsto> 0], lastUpdated = None\<rparr>
         (normalizeCurrencyCode ''EUR'') = Some 0"
    by (simp add: n)
  have d: "normalizeCurrencyCode ''$'' = ''USD''" by code_simp
  have b: "normalizeCurrencyCode ''$''
         = base \<lparr>base = ''USD'', date = ''2025-01-01'', rates = [''USD'' \<mapsto> 0, ''CNY'' \<mapsto> 7.25], lastUpdated = None\<rparr>"
    by (simp add: d)
  from h b convertCurrency_nonzero_divisor[of "''EUR''" _ 10 "''USD''" "''USD''" "''USD''"]
    convertCurrency_nonzero_divisor[of "''$''"
      "\<lparr>base = ''USD'', date = ''2025-01-01'', rates = [''USD'' \<mapsto> 0, ''CNY'' \<mapsto> 7.25], lastUpdated = None\<rparr>"
      10 "''USD''" "''USD''" "''USD''"]
  show ?thesis by blast
qed

text \<open>
  Claim C5 says that two identifiers with the same canonical code give back exactly the
  amount. The short cut of \<open>convertCurrency\<close> compares the identifiers themselves, before
  any normalization. The yen sign U+00A5 and "CNY" resolve to the same code, the call
  divides 15 by the rate 7.25 and multiplies the quotient by it, and the two roundings
  leave 15.000000000000002.
\<close>

theorem convertCurrency_identity_counterexample:
  "normalizeCurrencyCode [CHR 0xC2, CHR 0xA5] = normalizeCurrencyCode ''CNY''
   \<and> convertCurrency 15 [CHR 0xC2, CHR 0xA5] ''CNY''
        \<lparr>base = ''USD'', date = ''2025-01-01'', rates = [''CNY'' \<mapsto> 7.25], lastUpdated = None\<rparr>
      \<noteq> 15"
  by code_simp

text \<open>
  Claim C5, amended. For two identifiers with the same canonical code, \<open>convertCurrency\<close>
  returns exactly the amount when the two identifiers are the same string, and also when
  the rate of the code is not available; otherwise it returns the amount divided by the
  rate of the code and multiplied by the same rate, each operation rounded.
\<close>

theorem convertCurrency_same_code:
  assumes "normalizeCurrencyCode fromCurrency = normalizeCurrencyCode toCurrency"
  shows "convertCurrency amount fromCurrency toCurrency r =
           (if fromCurrency = toCurrency then amount
            else case getCurrencyRate fromCurrency r of
                   None \<Rightarrow> amount
                 | Some rate \<Rightarrow> js_mul (js_div amount rate) rate)"
proof -
  have "getCurrencyRate toCurrency r = getCurrencyRate fromCurrency r"
    using assms by (simp add: getCurrencyRate_cases)
  then show ?thesis
    by (simp add: convertCurrency_def split: option.splits)
qed

theorem convertCurrency_same_code_witness:
  "normalizeCurrencyCode [CHR 0xC2, CHR 0xA5] = normalizeCurrencyCode ''CNY''
   \<and> convertCurrency 15 [CHR 0xC2, CHR 0xA5] ''CNY''
        \<lparr>base = ''USD'', date = ''2025-01-01'', rates = [''CNY'' \<mapsto> 7.25], lastUpdated = None\<rparr>
      = js_mul (js_div 15 7.25) 7.25"
proof -
  have h: "normalizeCurrencyCode [CHR 0xC2, CHR 0xA5] = normalizeCurrencyCode ''CNY''"
    by code_simp
  have g: "getCurrencyRate [CHR 0xC2, CHR 0xA5]
             \<lparr>base = ''USD'', date = ''2025-01-01'', rates = [''CNY'' \<mapsto> 7.25], lastUpdated = None\<rparr>
           = Some 7.25"
    by code_simp
  show ?thesis
    using h g convertCurrency_same_code[OF h, of 15
        "\<lparr>base = ''USD'', date = ''2025-01-01'', rates = [''CNY'' \<mapsto> 7.25], lastUpdated = None\<rparr>"]
    by simp
qed

text \<open>
  When the common code is the base of the table the rate is 1, and the round trip gives
  back every amount that is a binary64 number.
\<close>

lemma convertCurrency_base_exact:
  "binary64 amount = amount \<Longrightarrow> js_mul (js_div amount 1) 1 = amount"
  by (simp add: js_mul_def js_div_def)


section \<open>The rate cache\<close>

lemma try_fetch_result:
  "\<exists>res. fst (try_fetch net now apiType cacheKey cached s) = Inr res"
  by (auto simp: try_fetch_def Let_def split: sum.splits option.splits)

lemma getExchangeRates_fresh:
  assumes "cache s (''rates_'' @ api_name apiType) = Some c" "now - timestamp c < CACHE_DURATION"
  shows "getExchangeRates net now apiType s = (Inr (Some (data c)), s)"
  using assms by (simp add: getExchangeRates_def)

lemma getExchangeRates_failure:
  assumes "(if apiType = Exchangerate then fetchExchangeRateAPI net else fetchCurrencyAPI net) = Inl e"
  shows "fst (getExchangeRates net now apiType s)
           = Inr (map_option data (cache s (''rates_'' @ api_name apiType)))"
    and "cache (snd (getExchangeRates net now apiType s)) = cache s"
  using assms
  by (auto simp: getExchangeRates_def try_fetch_def Let_def split: option.splits)

lemma getExchangeRates_result:
  "\<exists>res. fst (getExchangeRates net now apiType s) = Inr res"
  using try_fetch_result
  by (auto simp: getExchangeRates_def Let_def split: option.splits)

lemma getExchangeRates_cache_change:
  assumes "cache (snd (getExchangeRates net now apiType s)) \<noteq> cache s"
  shows "\<exists>d. (if apiType = Exchangerate then fetchExchangeRateAPI net else fetchCurrencyAPI net) = Inr d
          \<and> fst (getExchangeRates net now apiType s) = Inr (Some d)
          \<and> cache (snd (getExchangeRates net now apiType s))
              = (cache s)(''rates_'' @ api_name apiType \<mapsto> \<lparr>data = d, timestamp = now\<rparr>)"
  using assms
  by (auto simp: getExchangeRates_def try_fetch_def Let_def split: option.splits sum.splits if_splits)

text \<open>
  Claim C7. With the cache map and the clock as explicit state, \<open>getExchangeRates\<close>
  returns the cached table, and starts no fetch, whenever the cache has an entry for
  the source that is younger than one hour; when the fetch fails it returns the table of
  the existing entry, however old, and null when there is none; and it always returns a
  value, never an exception.
\<close>

theorem getExchangeRates_cache_and_fallback:
  "(\<forall>c. cache s (''rates_'' @ api_name apiType) = Some c \<and> now - timestamp c < 60 * 60 * 1000 \<longrightarrow>
        getExchangeRates net now apiType s = (Inr (Some (data c)), s))
   \<and> (\<forall>e. (if apiType = Exchangerate then fetchExchangeRateAPI net else fetchCurrencyAPI net) = Inl e \<longrightarrow>
        fst (getExchangeRates net now apiType s)
          = Inr (case cache s (''rates_'' @ api_name apiType) of
                   Some c \<Rightarrow> Some (data c)
                 | None \<Rightarrow> None))
   \<and> (\<exists>res. fst (getExchangeRates net now apiType s) = Inr res)"
proof (intro conjI allI impI)
  fix c
  assume "cache s (''rates_'' @ api_name apiType) = Some c \<and> now - timestamp c < 60 * 60 * 1000"
  then show "getExchangeRates net now apiType s = (Inr (Some (data c)), s)"
    using getExchangeRates_fresh[of s apiType c now net] by (simp add: CACHE_DURATION_def)
next
  fix e
  assume "(if apiType = Exchangerate then fetchExchangeRateAPI net else fetchCurrencyAPI net) = Inl e"
  then show "fst (getExchangeRates net now apiType s)
          = Inr (case cache s (''rates_'' @ api_name apiType) of
                   Some c \<Rightarrow> Some (data c)
                 | None \<Rightarrow> None)"
    using getExchangeRates_failure(1)[of apiType net e now s]
    by (simp add: map_option_case)
next
  show "\<exists>res. fst (getExchangeRates net now apiType s) = Inr res"
    by (rule getExchangeRates_result)
qed

text \<open>
  An entry that is one millisecond short of an hour old is served from the cache and the
  state is unchanged; a day later the fetch is tried, fails, and the old table is
  returned; the other source has no entry and the failure gives null.
\<close>

theorem getExchangeRates_cache_and_fallback_witness:
  "getExchangeRates
      \<lparr>fetchExchangeRateAPI = Inl (Error ''ExchangeRate API error: 503''),
       fetchCurrencyAPI = Inl (Error ''Currency API error: 503'')\<rparr>
      1735693199999 Exchangerate
      \<lparr>cache = [''rates_exchangerate'' \<mapsto> \<lparr>data = usd_table, timestamp = 1735689600000\<rparr>], fetches = []\<rparr>
    = (Inr (Some usd_table),
       \<lparr>cache = [''rates_exchangerate'' \<mapsto> \<lparr>data = usd_table, timestamp = 1735689600000\<rparr>], fetches = []\<rparr>)
   \<and> fst (getExchangeRates
      \<lparr>fetchExchangeRateAPI = Inl (Error ''ExchangeRate API error: 503''),
       fetchCurrencyAPI = Inl (Error ''Currency API error: 503'')\<rparr>
      1735776000000 Exchangerate
      \<lparr>cache = [''rates_exchangerate'' \<mapsto> \<lparr>data = usd_table, timestamp = 1735689600000\<rparr>], fetches = []\<rparr>)
    = Inr (Some usd_table)
   \<and> fst (getExchangeRates
      \<lparr>fetchExchangeRateAPI = Inl (Error ''ExchangeRate API error: 503''),
       fetchCurrencyAPI = Inl (Error ''Currency API error: 503'')\<rparr>
      1735776000000 Currency
      \<lparr>cache = [''rates_exchangerate'' \<mapsto> \<lparr>data = usd_table, timestamp = 1735689600000\<rparr>], fetches = []\<rparr>)
    = Inr None"
proof -
  let ?net = "\<lparr>fetchExchangeRateAPI = Inl (Error ''ExchangeRate API error: 503''),
       fetchCurrencyAPI = Inl (Error ''Currency API error: 503'')\<rparr>"
  let ?s = "\<lparr>cache = [''rates_exchangerate'' \<mapsto> \<lparr>data = usd_table, timestamp = 1735689600000\<rparr>], fetches = []\<rparr>"
  have a: "cache ?s (''rates_'' @ api_name Exchangerate) = Some \<lparr>data = usd_table, timestamp = 1735689600000\<rparr>
           \<and> 1735693199999 - timestamp \<lparr>data = usd_table, timestamp = 1735689600000\<rparr> < 60 * 60 * 1000"
    by simp
  have b: "(if Exchangerate = Exchangerate then fetchExchangeRateAPI ?net else fetchCurrencyAPI ?net)
             = Inl (Error ''ExchangeRate API error: 503'')"
    by simp
  have c: "(if Currency = Exchangerate then fetchExchangeRateAPI ?net else fetchCurrencyAPI ?net)
             = Inl (Error ''Currency API error: 503'')"
    by simp
  have k: "cache ?s (''rates_'' @ api_name Currency) = None" by simp
  note t1 = getExchangeRates_cache_and_fallback[of ?s Exchangerate 1735693199999 ?net]
  note t2 = getExchangeRates_cache_and_fallback[of ?s Exchangerate 1735776000000 ?net]
  note t3 = getExchangeRates_cache_and_fallback[of ?s Currency 1735776000000 ?net]
  have r1: "getExchangeRates ?net 1735693199999 Exchangerate ?s = (Inr (Some usd_table), ?s)"
    using t1 a by simp
  have r2: "fst (getExchangeRates ?net 1735776000000 Exchangerate ?s) = Inr (Some usd_table)"
    using t2 b a by simp
  have r3: "fst (getExchangeRates ?net 1735776000000 Currency ?s) = Inr None"
    using t3 c k by simp
  show ?thesis using r1 r2 r3 by blast
qed

text \<open>
  Claim C10. A failed fetch leaves the rate cache unchanged: when the fetch fails, the
  cache map after the call is the cache map before it; and whenever the call changes
  the cache map, the fetch has succeeded and the change is the entry of the fetched table.
\<close>

theorem getExchangeRates_failure_keeps_cache:
  "(\<forall>e. (if apiType = Exchangerate then fetchExchangeRateAPI net else fetchCurrencyAPI net) = Inl e \<longrightarrow>
        cache (snd (getExchangeRates net now apiType s)) = cache s)
   \<and> (cache (snd (getExchangeRates net now apiType s)) \<noteq> cache s \<longrightarrow>
        (\<exists>d. (if apiType = Exchangerate then fetchExchangeRateAPI net else fetchCurrencyAPI net) = Inr d
          \<and> cache (snd (getExchangeRates net now apiType s))
              = (cache s)(''rates_'' @ api_name apiType \<mapsto> \<lparr>data = d, timestamp = now\<rparr>)))"
  using getExchangeRates_failure(2)[of apiType net _ now s]
    getExchangeRates_cache_change[of net now apiType s]
  by blast

text \<open>
  A failing fetch with an expired entry keeps the cache; a successful fetch for the other
  source adds its entry.
\<close>

theorem getExchangeRates_failure_keeps_cache_witness:
  "cache (snd (getExchangeRates
      \<lparr>fetchExchangeRateAPI = Inl (Error ''ExchangeRate API error: 503''),
       fetchCurrencyAPI = Inr usd_table\<rparr>
      1735776000000 Exchangerate
      \<lparr>cache = [''rates_exchangerate'' \<mapsto> \<lparr>data = usd_table, timestamp = 1735689600000\<rparr>], fetches = []\<rparr>))
    = [''rates_exchangerate'' \<mapsto> \<lparr>data = usd_table, timestamp = 1735689600000\<rparr>]
   \<and> cache (snd (getExchangeRates
      \<lparr>fetchExchangeRateAPI = Inl (Error ''ExchangeRate API error: 503''),
       fetchCurrencyAPI = Inr usd_table\<rparr>
      1735776000000 Currency
      \<lparr>cache = [''rates_exchangerate'' \<mapsto> \<lparr>data = usd_table, timestamp = 1735689600000\<rparr>], fetches = []\<rparr>))
    = [''rates_exchangerate'' \<mapsto> \<lparr>data = usd_table, timestamp = 1735689600000\<rparr>,
       ''rates_currency'' \<mapsto> \<lparr>data = usd_table, timestamp = 1735776000000\<rparr>]"
proof -
  let ?net = "\<lparr>fetchExchangeRateAPI = Inl (Error ''ExchangeRate API error: 503''),
       fetchCurrencyAPI = Inr usd_table\<rparr>"
  let ?s = "\<lparr>cache = [''rates_exchangerate'' \<mapsto> \<lparr>data = usd_table, timestamp = 1735689600000\<rparr>], fetches = []\<rparr>"
  have b: "(if Exchangerate = Exchangerate then fetchExchangeRateAPI ?net else fetchCurrencyAPI ?net)
             = Inl (Error ''ExchangeRate API error: 503'')"
    by simp
  note t1 = getExchangeRates_failure_keeps_cache[of Exchangerate ?net 1735776000000 ?s]
  note t2 = getExchangeRates_failure_keeps_cache[of Currency ?net 1735776000000 ?s]
  have r1: "cache (snd (getExchangeRates ?net 1735776000000 Exchangerate ?s)) = cache ?s"
    using t1 b by blast
  have "cache (snd (getExchangeRates ?net 1735776000000 Currency ?s)) ''rates_currency'' \<noteq> cache ?s ''rates_currency''"
    by (simp add: getExchangeRates_def try_fetch_def)
  then have ne: "cache (snd (getExchangeRates ?net 1735776000000 Currency ?s)) \<noteq> cache ?s"
    by metis
  have r2: "cache (snd (getExchangeRates ?net 1735776000000 Currency ?s))
      = (cache ?s)(''rates_'' @ api_name Currency \<mapsto> \<lparr>data = usd_table, timestamp = 1735776000000\<rparr>)"
    using t2 ne by simp
  show ?thesis using r1 r2 by simp
qed

section \<open>Price formatting\<close>

lemma cycleStr_bands: "cycleStr d = band_label formatPrice_bands d"
  by (auto simp: cycleStr_def formatPrice_bands_def)

text \<open>
  Claim C2 gives \<open>formatPrice\<close> the bands of the specification's table. The code tests
  the month with \<^verbatim>\<open>billingCycle === 30 || billingCycle === 31\<close> and the half year with
  \<^verbatim>\<open>billingCycle >= 180 && billingCycle <= 183\<close>: a cycle of 28 days and a cycle of 184
  days are rendered as day counts.
\<close>

theorem formatPrice_bands_counterexample:
  "formatPrice 10 ''$'' 28 None = ''$10.00/28'' @ str_day
   \<and> formatPrice 10 ''$'' 28 None \<noteq> ''$10.00/'' @ spec_cycle_label 28
   \<and> formatPrice 10 ''$'' 184 None = ''$10.00/184'' @ str_day
   \<and> formatPrice 10 ''$'' 184 None \<noteq> ''$10.00/'' @ spec_cycle_label 184"
  by code_simp

text \<open>
  Claim C2, amended. For a price that is neither -1 nor 0, a currency that is present and
  every positive cycle, \<open>formatPrice\<close> renders the symbol (unless switched off), the
  price with two decimals, a slash and the label of the cycle, where the label is: month
  for 30 or 31 days, quarter for 89 to 92, half year for 180 to 183, year for 364 to 366,
  two years for 730 to 732, three years for 1095 to 1097, five years for 1825 to 1827, and
  the day count followed by the word for day for every other value.
\<close>

theorem formatPrice_cycle_label:
  assumes "p \<noteq> - 1" "p \<noteq> 0" "cur \<noteq> []" "0 < cyc"
  shows "formatPrice p cur cyc None = cur @ toFixed 2 p @ ''/'' @ band_label formatPrice_bands cyc
       \<and> formatPrice p cur cyc (Some opt) =
           (if showSymbol opt = Some False then []
            else case targetCurrency opt of None \<Rightarrow> cur | Some c \<Rightarrow> c)
           @ toFixed 2 (case convertedPrice opt of None \<Rightarrow> p | Some q \<Rightarrow> q)
           @ ''/'' @ band_label formatPrice_bands cyc"
  using assms
  by (auto simp: formatPrice_def Let_def cycleStr_bands split: option.splits)

text \<open>The scenario of the specification: 91 days is a quarter, 400 days is "400 days".\<close>

theorem formatPrice_cycle_label_witness:
  "formatPrice 10 ''$'' 91 None = ''$10.00/'' @ str_quarter
   \<and> formatPrice 10 ''$'' 400 None = ''$10.00/400'' @ str_day
   \<and> formatPrice 10 ''$'' 30 (Some \<lparr>convertedPrice = Some 72.5, targetCurrency = Some ''CNY'', showSymbol = None\<rparr>)
       = ''CNY72.50/'' @ str_month"
proof -
  have h: "(10::real) \<noteq> - 1" "(10::real) \<noteq> 0" "''$'' \<noteq> []" "(0::int) < 91" "(0::int) < 400" "(0::int) < 30"
    by simp_all
  have a: "toFixed 2 10 = ''10.00''" by code_simp
  have b: "toFixed 2 72.5 = ''72.50''" by code_simp
  have c: "band_label formatPrice_bands 91 = str_quarter" by code_simp
  have d: "band_label formatPrice_bands 400 = ''400'' @ str_day" by code_simp
  have e: "band_label formatPrice_bands 30 = str_month" by code_simp
  have r1: "formatPrice 10 ''$'' 91 None = ''$'' @ toFixed 2 10 @ ''/'' @ band_label formatPrice_bands 91"
    by (rule conjunct1[OF formatPrice_cycle_label[OF h(1) h(2) h(3) h(4)]])
  have r2: "formatPrice 10 ''$'' 400 None = ''$'' @ toFixed 2 10 @ ''/'' @ band_label formatPrice_bands 400"
    by (rule conjunct1[OF formatPrice_cycle_label[OF h(1) h(2) h(3) h(5)]])
  have r3: "formatPrice 10 ''$'' 30 (Some \<lparr>convertedPrice = Some 72.5, targetCurrency = Some ''CNY'', showSymbol = None\<rparr>)
      = ''CNY'' @ toFixed 2 72.5 @ ''/'' @ band_label formatPrice_bands 30"
    using conjunct2[OF formatPrice_cycle_label[OF h(1) h(2) h(3) h(6),
        of "\<lparr>convertedPrice = Some 72.5, targetCurrency = Some ''CNY'', showSymbol = None\<rparr>"]]
    by simp
  show ?thesis unfolding r1 r2 r3 a b c d e by simp
qed

text \<open>
  Claim C8 says that a cycle that is not positive gives "N/A". The code tests
  \<^verbatim>\<open>!billingCycle\<close>, which holds for 0 only, and formats a negative cycle as a one-time
  amount.
\<close>

theorem formatPrice_na_counterexample:
  "formatPrice 10 ''$'' (- 1) None = ''$10.00'' \<and> formatPrice 10 ''$'' (- 1) None \<noteq> ''N/A''"
  by code_simp

lemma formatPrice_free: "formatPrice (- 1) cur cyc opts = str_free"
  by (simp add: formatPrice_def)

lemma formatPrice_zero: "formatPrice 0 cur cyc opts = []"
  by (simp add: formatPrice_def)

lemma formatPrice_na:
  "p \<noteq> - 1 \<and> p \<noteq> 0 \<and> (cur = [] \<or> cyc = 0) \<Longrightarrow> formatPrice p cur cyc opts = ''N/A''"
  by (simp add: formatPrice_def)

lemma formatPrice_one_time:
  "p \<noteq> - 1 \<and> p \<noteq> 0 \<and> cur \<noteq> [] \<and> cyc < 0 \<Longrightarrow> formatPrice p cur cyc None = cur @ toFixed 2 p"
  by (simp add: formatPrice_def)

lemma calculateRemainingValue_free: "calculateRemainingValue (- 1) cyc e now = Num 0"
  by (simp add: calculateRemainingValue_def)

text \<open>
  Claim C8, amended. For every currency and cycle, \<open>formatPrice\<close> returns the fixed free
  string when the price is -1 and the empty string when the price is 0; for every other
  price it returns "N/A" when the currency is missing or the cycle is 0, and the amount
  without a cycle when the currency is present and the cycle is negative; and
  \<open>calculateRemainingValue\<close> returns 0 when the price is -1.
\<close>

theorem formatPrice_sentinels:
  "formatPrice (- 1) cur cyc opts = str_free
   \<and> formatPrice 0 cur cyc opts = []
   \<and> (p \<noteq> - 1 \<and> p \<noteq> 0 \<and> (cur = [] \<or> cyc = 0) \<longrightarrow> formatPrice p cur cyc opts = ''N/A'')
   \<and> (p \<noteq> - 1 \<and> p \<noteq> 0 \<and> cur \<noteq> [] \<and> cyc < 0 \<longrightarrow>
        formatPrice p cur cyc None = cur @ toFixed 2 p)
   \<and> calculateRemainingValue (- 1) cyc e now = Num 0"
proof (intro conjI impI)
  show "formatPrice (- 1) cur cyc opts = str_free" by (rule formatPrice_free)
  show "formatPrice 0 cur cyc opts = []" by (rule formatPrice_zero)
  show "calculateRemainingValue (- 1) cyc e now = Num 0" by (rule calculateRemainingValue_free)
next
  assume "p \<noteq> - 1 \<and> p \<noteq> 0 \<and> (cur = [] \<or> cyc = 0)"
  then show "formatPrice p cur cyc opts = ''N/A''" by (rule formatPrice_na)
next
  assume "p \<noteq> - 1 \<and> p \<noteq> 0 \<and> cur \<noteq> [] \<and> cyc < 0"
  then show "formatPrice p cur cyc None = cur @ toFixed 2 p" by (rule formatPrice_one_time)
qed

theorem formatPrice_sentinels_witness:
  "formatPrice (- 1) ''$'' 30 None = str_free
   \<and> formatPrice 0 ''$'' 30 None = []
   \<and> formatPrice 10 [] 30 None = ''N/A''
   \<and> formatPrice 10 ''$'' 0 None = ''N/A''
   \<and> formatPrice 10 ''$'' (- 1) None = ''$'' @ toFixed 2 10
   \<and> calculateRemainingValue (- 1) 30 (Expires 1735758000000) 1735725600000 = Num 0"
proof -
  note s1 = formatPrice_sentinels[of "''$''" 30 None 10 "Expires 1735758000000" 1735725600000]
  note s2 = formatPrice_sentinels[of "[]" 30 None 10 "Expires 1735758000000" 1735725600000]
  note s3 = formatPrice_sentinels[of "''$''" 0 None 10 "Expires 1735758000000" 1735725600000]
  note s4 = formatPrice_sentinels[of "''$''" "- 1" None 10 "Expires 1735758000000" 1735725600000]
  have h2: "(10::real) \<noteq> - 1 \<and> (10::real) \<noteq> 0 \<and> (([]::string) = [] \<or> (30::int) = 0)" by simp
  have h3: "(10::real) \<noteq> - 1 \<and> (10::real) \<noteq> 0 \<and> (''$'' = [] \<or> (0::int) = 0)" by simp
  have h4: "(10::real) \<noteq> - 1 \<and> (10::real) \<noteq> 0 \<and> ''$'' \<noteq> [] \<and> (- 1::int) < 0" by simp
  have c1: "formatPrice (- 1) ''$'' 30 None = str_free" by (rule conjunct1[OF s1])
  have c2: "formatPrice 0 ''$'' 30 None = []" by (rule conjunct1[OF conjunct2[OF s1]])
  have c3: "formatPrice 10 [] 30 None = ''N/A''"
    by (rule mp[OF conjunct1[OF conjunct2[OF conjunct2[OF s2]]] h2])
  have c4: "formatPrice 10 ''$'' 0 None = ''N/A''"
    by (rule mp[OF conjunct1[OF conjunct2[OF conjunct2[OF s3]]] h3])
  have c5: "formatPrice 10 ''$'' (- 1) None = ''$'' @ toFixed 2 10"
    by (rule mp[OF conjunct1[OF conjunct2[OF conjunct2[OF conjunct2[OF s4]]]] h4])
  have c6: "calculateRemainingValue (- 1) 30 (Expires 1735758000000) 1735725600000 = Num 0"
    by (rule conjunct2[OF conjunct2[OF conjunct2[OF conjunct2[OF s1]]]])
  show ?thesis by (intro conjI c1 c2 c3 c4 c5 c6)
qed

section \<open>Remaining value\<close>

lemma ceiling_ms:
  "\<lceil>real_of_int a / real_of_int msPerDay\<rceil> = - ((- a) div msPerDay)"
proof -
  have "\<lceil>real_of_int a / real_of_int msPerDay\<rceil> = - \<lfloor>real_of_int (- a) / real_of_int msPerDay\<rfloor>"
    by (simp add: ceiling_def)
  then show ?thesis by (simp only: floor_divide_of_int_eq)
qed

lemma calculateRemainingValue_Expires:
  assumes "p \<noteq> - 1" "p \<noteq> 0" "0 < cyc"
  shows "calculateRemainingValue p cyc (Expires t) now =
           Num (js_mul (real_of_int (max 0 (- ((now - t) div msPerDay)))) (js_div p (real_of_int cyc)))"
  using assms ceiling_ms[of "t - now"]
  by (simp add: calculateRemainingValue_def Let_def)

text \<open>
  Claim C1 says that the remaining days are the floor of the difference of the two local
  midnights. \<open>calculateRemainingValue\<close> takes the ceiling of the difference of the two
  time values as they are. With one hour left on the same day (2023-11-14, 22:13:20 and
  23:13:20 UTC) the code counts one day, the formula of the claim none.
\<close>

theorem calculateRemainingValue_counterexample:
  "calculateRemainingValue 30 30 (Expires 1700003600000) 1700000000000 = Num 1
   \<and> spec_remainingValue 0 30 30 1700003600000 1700000000000 = 0"
  by code_simp

text \<open>
  Claim C1, amended. For every price other than -1 and 0, every positive cycle, every
  expiry that parses and every current time, \<open>calculateRemainingValue\<close> returns
  \<open>d * (price / cycle)\<close>, with the cycle as it is given as the divisor, where \<open>d\<close> is the
  ceiling of (expiry - now) / one day, and 0 when that is negative: the least number of
  whole days, not negative, that covers the time left. The timestamps are not truncated
  to midnight.
\<close>

theorem calculateRemainingValue_ceil:
  assumes "p \<noteq> - 1" "p \<noteq> 0" "0 < cyc"
  shows "\<exists>d. 0 \<le> d
           \<and> t - now \<le> d * 86400000
           \<and> (d = 0 \<or> (d - 1) * 86400000 < t - now)
           \<and> calculateRemainingValue p cyc (Expires t) now
               = Num (js_mul (real_of_int d) (js_div p (real_of_int cyc)))"
proof -
  define d where "d = max 0 (- ((now - t) div 86400000))"
  have m: "msPerDay = 86400000" by (simp add: msPerDay_def)
  have "0 \<le> d" by (simp add: d_def)
  moreover have "t - now \<le> d * 86400000"
    unfolding d_def by (simp add: max_def) linarith?
  moreover have "d = 0 \<or> (d - 1) * 86400000 < t - now"
    unfolding d_def by (simp add: max_def) linarith?
  moreover have "calculateRemainingValue p cyc (Expires t) now
               = Num (js_mul (real_of_int d) (js_div p (real_of_int cyc)))"
    using calculateRemainingValue_Expires[OF assms, of t now] by (simp add: d_def m)
  ultimately show ?thesis by blast
qed


text \<open>The scenario of the specification: 120 for 30 days, 15 days left, gives 60.\<close>

theorem calculateRemainingValue_ceil_witness:
  "(120::real) \<noteq> - 1 \<and> (120::real) \<noteq> 0 \<and> (0::int) < 30
   \<and> calculateRemainingValue 120 30 (Expires 1737021600000) 1735725600000 = Num 60"
proof -
  have h: "(120::real) \<noteq> - 1" "(120::real) \<noteq> 0" "(0::int) < 30" by simp_all
  from calculateRemainingValue_ceil[OF h, of 1737021600000 1735725600000]
  obtain d where d: "0 \<le> d" "1737021600000 - 1735725600000 \<le> d * 86400000"
      "d = 0 \<or> (d - 1) * 86400000 < 1737021600000 - 1735725600000"
      "calculateRemainingValue 120 30 (Expires 1737021600000) 1735725600000
         = Num (js_mul (real_of_int d) (js_div 120 (real_of_int 30)))"
    by blast
  have "d = 15" using d(1,2,3) by simp
  moreover have "js_mul 15 (js_div 120 30) = 60" by code_simp
  ultimately show ?thesis using d(4) h by simp
qed

text \<open>
  Claim C3 says that the remaining value is 0 for every current time at or past the expiry
  at the granularity of local midnights. At 10:00 of the day of an expiry at 19:00 (UTC,
  2025-01-01) the two midnights are the same, and the code still counts one day.
\<close>

theorem calculateRemainingValue_midnight_counterexample:
  "local_midnight 0 1735758000000 \<le> local_midnight 0 1735725600000
   \<and> calculateRemainingValue 365 365 (Expires 1735758000000) 1735725600000 = Num 1"
  by code_simp

lemma remaining_days_antimono:
  "now1 \<le> now2 \<Longrightarrow>
     max 0 (- ((now2 - t) div msPerDay)) \<le> max (0::int) (- ((now1 - t) div msPerDay))"
proof -
  assume "now1 \<le> now2"
  then have "(now1 - t) div msPerDay \<le> (now2 - t) div msPerDay"
    by (intro zdiv_mono1) (simp_all add: msPerDay_def)
  then show ?thesis by linarith
qed

lemma remaining_days_expired:
  "t \<le> now \<Longrightarrow> max 0 (- ((now - t) div msPerDay)) = (0::int)"
proof -
  assume "t \<le> now"
  then have "0 \<le> (now - t) div msPerDay"
    by (simp add: pos_imp_zdiv_nonneg_iff msPerDay_def)
  then show ?thesis by linarith
qed

lemma calculateRemainingValue_mono:
  assumes "0 \<le> p \<or> p = - 1" "now1 \<le> now2"
  shows "num_le (calculateRemainingValue p cyc (Expires t) now2)
                (calculateRemainingValue p cyc (Expires t) now1)"
proof (cases "p = - 1 \<or> p = 0 \<or> cyc \<le> 0")
  case True
  then show ?thesis by (auto simp: calculateRemainingValue_def)
next
  case False
  then have h: "p \<noteq> - 1" "p \<noteq> 0" "0 < cyc" by auto
  then have p: "0 < p" using assms(1) by auto
  define dv where "dv = js_div p (real_of_int cyc)"
  have "0 \<le> p / real_of_int cyc" using p h(3) by simp
  then have dv: "0 \<le> dv" unfolding dv_def js_div_def by (rule binary64_nonneg)
  have "real_of_int (max 0 (- ((now2 - t) div msPerDay))) \<le> real_of_int (max 0 (- ((now1 - t) div msPerDay)))"
    using remaining_days_antimono[OF assms(2), of t] by (simp only: of_int_le_iff)
  then have "real_of_int (max 0 (- ((now2 - t) div msPerDay))) * dv
               \<le> real_of_int (max 0 (- ((now1 - t) div msPerDay))) * dv"
    using dv by (rule mult_right_mono)
  then have "js_mul (real_of_int (max 0 (- ((now2 - t) div msPerDay)))) dv
               \<le> js_mul (real_of_int (max 0 (- ((now1 - t) div msPerDay)))) dv"
    unfolding js_mul_def by (rule binary64_mono)
  then show ?thesis
    by (simp add: calculateRemainingValue_Expires[OF h] dv_def)
qed

lemma calculateRemainingValue_expired:
  assumes "t \<le> now"
  shows "calculateRemainingValue p cyc (Expires t) now = Num 0"
proof (cases "p = - 1 \<or> p = 0 \<or> cyc \<le> 0")
  case True
  then show ?thesis by (auto simp: calculateRemainingValue_def)
next
  case False
  then have h: "p \<noteq> - 1" "p \<noteq> 0" "0 < cyc" by auto
  show ?thesis
    by (simp add: calculateRemainingValue_Expires[OF h] remaining_days_expired[OF assms]
        js_mul_def binary64_zero)
qed

text \<open>
  Claim C3, amended. For every price that is not negative, or is -1, every cycle and every
  expiry that parses, the remaining value does not increase as the current time advances;
  and for every price it is exactly 0 at every current time at or past the time value of
  the expiry (the time values are compared as they are, not their midnights).
\<close>

theorem calculateRemainingValue_monotone:
  "((0 \<le> p \<or> p = - 1) \<and> now1 \<le> now2 \<longrightarrow>
      num_le (calculateRemainingValue p cyc (Expires t) now2)
             (calculateRemainingValue p cyc (Expires t) now1))
   \<and> (t \<le> now \<longrightarrow> calculateRemainingValue p cyc (Expires t) now = Num 0)"
  using calculateRemainingValue_mono[of p now1 now2 cyc t]
    calculateRemainingValue_expired[of t now p cyc]
  by blast

theorem calculateRemainingValue_monotone_witness:
  "calculateRemainingValue 120 30 (Expires 1737021600000) 1735725600000 = Num 60
   \<and> calculateRemainingValue 120 30 (Expires 1737021600000) 1736935200000 = Num 4
   \<and> num_le (calculateRemainingValue 120 30 (Expires 1737021600000) 1736935200000)
            (calculateRemainingValue 120 30 (Expires 1737021600000) 1735725600000)
   \<and> calculateRemainingValue 120 30 (Expires 1737021600000) 1737021600000 = Num 0"
proof -
  have a: "calculateRemainingValue 120 30 (Expires 1737021600000) 1735725600000 = Num 60"
    by code_simp
  have b: "calculateRemainingValue 120 30 (Expires 1737021600000) 1736935200000 = Num 4"
    by code_simp
  have h1: "((0::real) \<le> 120 \<or> (120::real) = - 1) \<and> (1735725600000::int) \<le> 1736935200000" by simp
  have h2: "(1737021600000::int) \<le> 1737021600000" by simp
  have c: "num_le (calculateRemainingValue 120 30 (Expires 1737021600000) 1736935200000)
            (calculateRemainingValue 120 30 (Expires 1737021600000) 1735725600000)"
    by (rule mp[OF conjunct1[OF calculateRemainingValue_monotone[of 120 1735725600000 1736935200000 30 1737021600000 0]] h1])
  have d: "calculateRemainingValue 120 30 (Expires 1737021600000) 1737021600000 = Num 0"
    by (rule mp[OF conjunct2[OF calculateRemainingValue_monotone[of 120 0 0 30 1737021600000 1737021600000]] h2])
  show ?thesis by (intro conjI a b c d)
qed

text \<open>
  A negative price other than -1 is not excluded by the code, and its remaining value goes
  up towards 0 as the expiry comes nearer.
\<close>

lemma calculateRemainingValue_negative_price:
  "calculateRemainingValue (- 2) 1 (Expires 1735862400000) 1735689600000 = Num (- 4)
   \<and> calculateRemainingValue (- 2) 1 (Expires 1735862400000) 1735776000000 = Num (- 2)"
  by code_simp


text \<open>
  The day count of the specification is the one of the panel; the panel divides the price
  by the length of the bucket of the cycle (30 for a cycle of 28 to 31 days), where
  \<open>calculateRemainingValue\<close> divides by the cycle itself.
\<close>

lemma panel_remainingDays_spec:
  "panel_remainingDays tz (Expires t) now = Num (real_of_int (spec_remainingDays tz t now))"
  by (simp add: panel_remainingDays_def spec_remainingDays_def)

lemma panel_remainingValue_bucket:
  "panel_remainingValue tz p cyc (Expires t) now =
     Num (js_mul (js_div p (real_of_int (cycle_days (mapCycleToDays cyc))))
                 (real_of_int (spec_remainingDays tz t now)))"
  by (simp add: panel_remainingValue_def panel_remainingDays_spec)

lemma mapCycleToDays_month:
  "28 \<le> cyc \<Longrightarrow> cyc \<le> 31 \<Longrightarrow> cycle_days (mapCycleToDays cyc) = 30"
  by (simp add: mapCycleToDays_def)

section \<open>Renewal projection\<close>

lemma renewal_count_step:
  assumes "0 < P" "t \<le> e"
  shows "renewal_count t e P = Suc (renewal_count (t + P) e P)"
proof (cases "t + P \<le> e")
  case True
  have d: "(e - t) div P = (e - (t + P)) div P + 1"
    using assms(1) div_mult_self1[of P "e - (t + P)" 1] by (simp add: algebra_simps)
  have "0 \<le> (e - (t + P)) div P"
    using True assms(1) by (simp add: pos_imp_zdiv_nonneg_iff)
  then show ?thesis using True assms(2) d by (simp add: renewal_count_def)
next
  case False
  then have "(e - t) div P = 0" using assms by (simp add: div_pos_pos_trivial)
  then show ?thesis using False assms(2) by (simp add: renewal_count_def)
qed

lemma renewal_loop_unfold:
  "0 < P \<Longrightarrow>
   renewal_loop convert n P e t acc =
     (foldl js_add (fst acc) (replicate (renewal_count t e P) (convert (price n) (currency n))),
      snd acc @ map (\<lambda>i. renewal_event convert n (t + int i * P)) [0..<renewal_count t e P])"
proof (induction convert n P e t acc rule: renewal_loop.induct)
  case (1 convert n periodMs endMs t tot events)
  show ?case
  proof (cases "t \<le> endMs")
    case True
    have c: "renewal_count t endMs periodMs = Suc (renewal_count (t + periodMs) endMs periodMs)"
      using "1.prems" True by (rule renewal_count_step)
    have m: "map (\<lambda>i. renewal_event convert n (t + int i * periodMs))
               [0..<Suc (renewal_count (t + periodMs) endMs periodMs)]
             = renewal_event convert n t
               # map (\<lambda>i. renewal_event convert n (t + periodMs + int i * periodMs))
                   [0..<renewal_count (t + periodMs) endMs periodMs]"
      by (simp only: map_upt_Suc) (simp add: algebra_simps)
    have ih: "renewal_loop convert n periodMs endMs (t + periodMs)
                (js_add tot (convert (price n) (currency n)), events @ [renewal_event convert n t])
              = (foldl js_add (js_add tot (convert (price n) (currency n)))
                   (replicate (renewal_count (t + periodMs) endMs periodMs) (convert (price n) (currency n))),
                 (events @ [renewal_event convert n t])
                 @ map (\<lambda>i. renewal_event convert n (t + periodMs + int i * periodMs))
                     [0..<renewal_count (t + periodMs) endMs periodMs])"
      using "1.IH"[OF _ refl] "1.prems" True
      by (simp add: renewal_event_def)
    have "renewal_loop convert n periodMs endMs t (tot, events)
          = renewal_loop convert n periodMs endMs (t + periodMs)
              (js_add tot (convert (price n) (currency n)), events @ [renewal_event convert n t])"
      using "1.prems" True
      by (subst renewal_loop.simps) (simp add: renewal_event_def Let_def)
    then show ?thesis
      by (simp only: ih c m) simp
  next
    case False
    then show ?thesis
      by (subst renewal_loop.simps) (simp add: renewal_count_def)
  qed
qed


lemma renew_node_eligible:
  assumes "0 < price n" "0 < billing_cycle n" "expired_at n = Expires E"
  shows "renew_node convert s e n acc =
           renewal_loop convert n (billing_cycle n * 86400000) e
             (if E < s then E + ((s - E) div (billing_cycle n * 86400000) + 1) * (billing_cycle n * 86400000)
              else E) acc"
proof -
  have p: "billing_cycle n * 24 * 60 * 60 * 1000 = billing_cycle n * 86400000" by simp
  show ?thesis
    unfolding renew_node_def Let_def p floor_divide_of_int_eq
    using assms by simp
qed

lemma node_events_eligible:
  assumes "0 < price n" "0 < billing_cycle n" "expired_at n = Expires E"
  shows "node_events convert s e n =
           map (\<lambda>i. renewal_event convert n (renewal_anchor s E (billing_cycle n * 86400000)
                                                + int i * (billing_cycle n * 86400000)))
             [0..<renewal_count (renewal_anchor s E (billing_cycle n * 86400000)) e (billing_cycle n * 86400000)]"
proof -
  have P: "0 < billing_cycle n * 86400000" using assms(2) by simp
  show ?thesis
    by (simp add: node_events_def renew_node_eligible[OF assms] renewal_loop_unfold[OF P]
        renewal_anchor_def)
qed

lemma node_events_skipped:
  assumes "price n \<le> 0 \<or> billing_cycle n \<le> 0 \<or> expired_at n = No_Expiry \<or> expired_at n = Invalid_Date"
  shows "node_events convert s e n = []" and "renew_node convert s e n acc = acc"
  using assms by (auto simp: node_events_def renew_node_def split: expired_at.splits)

lemma node_cases:
  obtains (skipped) "price n \<le> 0 \<or> billing_cycle n \<le> 0 \<or> expired_at n = No_Expiry \<or> expired_at n = Invalid_Date"
  | (eligible) E where "0 < price n" "0 < billing_cycle n" "expired_at n = Expires E"
proof (cases "price n \<le> 0 \<or> billing_cycle n \<le> 0 \<or> expired_at n = No_Expiry \<or> expired_at n = Invalid_Date")
  case True
  then show ?thesis by (rule skipped)
next
  case False
  then obtain E where "expired_at n = Expires E" by (cases "expired_at n") auto
  moreover have "0 < price n" "0 < billing_cycle n" using False by auto
  ultimately show ?thesis using eligible by blast
qed

lemma renew_node_acc:
  "renew_node convert s e n acc =
     (foldl js_add (fst acc) (map ev_amount (node_events convert s e n)),
      snd acc @ node_events convert s e n)"
proof (cases n rule: node_cases)
  case skipped
  then show ?thesis by (simp add: node_events_skipped)
next
  case (eligible E)
  have P: "0 < billing_cycle n * 86400000" using eligible(2) by simp
  have a: "map ev_amount (node_events convert s e n)
           = replicate (renewal_count (renewal_anchor s E (billing_cycle n * 86400000)) e (billing_cycle n * 86400000))
               (convert (price n) (currency n))"
    by (simp add: node_events_eligible[OF eligible] renewal_event_def o_def map_replicate_const)
  show ?thesis
    unfolding a
    by (simp add: node_events_eligible[OF eligible] renew_node_eligible[OF eligible]
        renewal_loop_unfold[OF P] renewal_anchor_def)
qed

lemma fold_renew_node:
  "fold (renew_node convert s e) nodes acc =
     (foldl js_add (fst acc) (map ev_amount (concat (map (node_events convert s e) nodes))),
      snd acc @ concat (map (node_events convert s e) nodes))"
proof (induction nodes arbitrary: acc)
  case Nil
  then show ?case by simp
next
  case (Cons n nodes)
  show ?case
    by (simp add: Cons.IH renew_node_acc[of convert s e n acc])
qed

lemma buildRenewalSummary_eq:
  "buildRenewalSummary convert s e nodes =
     (foldl js_add 0 (map ev_amount (concat (map (node_events convert s e) nodes))),
      sort_key ev_date (concat (map (node_events convert s e) nodes)))"
  by (simp add: buildRenewalSummary_def fold_renew_node)

lemma renewal_anchor_ge:
  assumes "0 < P"
  shows "s \<le> renewal_anchor s E P"
proof (cases "E < s")
  case True
  have "(s - E) mod P < P" using assms by simp
  moreover have "s - E = (s - E) div P * P + (s - E) mod P" by simp
  ultimately have "s - E < (s - E) div P * P + P" by linarith
  then show ?thesis using True by (simp add: renewal_anchor_def algebra_simps)
next
  case False
  then show ?thesis by (simp add: renewal_anchor_def)
qed

lemma renewal_time_le:
  assumes "0 < P" "i < renewal_count a e P"
  shows "a + int i * P \<le> e"
proof -
  have ae: "a \<le> e" using assms(2) by (cases "a \<le> e") (simp_all add: renewal_count_def)
  then have "int i < (e - a) div P + 1" using assms(2) by (simp add: renewal_count_def)
  then have "int i \<le> (e - a) div P" by simp
  then have "int i * P \<le> (e - a) div P * P" using assms(1) by (simp add: mult_right_mono)
  also have "\<dots> \<le> e - a"
    using assms(1) by (metis div_mult_mod_eq Euclidean_Rings.pos_mod_sign add.commute le_add_same_cancel2)
  finally show ?thesis by simp
qed

lemma node_events_window:
  assumes "ev \<in> set (node_events convert s e n)"
  shows "s \<le> ev_date ev \<and> ev_date ev \<le> e"
proof (cases n rule: node_cases)
  case skipped
  then show ?thesis using assms by (simp add: node_events_skipped)
next
  case (eligible E)
  define P where "P = billing_cycle n * 86400000"
  define a where "a = renewal_anchor s E P"
  have P: "0 < P" using eligible(2) by (simp add: P_def)
  from assms obtain i where i: "i < renewal_count a e P" "ev = renewal_event convert n (a + int i * P)"
    by (auto simp: node_events_eligible[OF eligible] P_def a_def)
  have "ev_date ev = a + int i * P" using i(2) by (simp add: renewal_event_def)
  moreover have "a + int i * P \<le> e" using P i(1) by (rule renewal_time_le)
  moreover have "s \<le> a" unfolding a_def using P by (rule renewal_anchor_ge)
  moreover have "0 \<le> int i * P" using P by simp
  ultimately show ?thesis by linarith
qed

lemma node_events_dates:
  assumes "0 < price n" "0 < billing_cycle n" "expired_at n = Expires E"
  shows "map ev_date (node_events convert s e n) =
           map (\<lambda>i. renewal_anchor s E (billing_cycle n * 86400000) + int i * (billing_cycle n * 86400000))
             [0..<length (node_events convert s e n)]"
  by (simp add: node_events_eligible[OF assms] renewal_event_def o_def)

lemma node_events_count_inside:
  assumes "0 < price n" "0 < billing_cycle n" "expired_at n = Expires E" "s \<le> E" "E \<le> e"
  shows "int (length (node_events convert s e n)) = (e - E) div (billing_cycle n * 86400000) + 1"
proof -
  have "0 \<le> (e - E) div (billing_cycle n * 86400000)"
    using assms(2,5) by (simp add: pos_imp_zdiv_nonneg_iff)
  then show ?thesis
    using assms(4,5)
    by (simp add: node_events_eligible[OF assms(1,2,3)] renewal_anchor_def renewal_count_def)
qed


lemma node_events_fields:
  assumes "ev \<in> set (node_events convert s e n)"
  shows "ev_name ev = name n \<and> ev_amount ev = convert (price n) (currency n)"
proof (cases n rule: node_cases)
  case skipped
  then show ?thesis using assms by (simp add: node_events_skipped)
next
  case (eligible E)
  then show ?thesis
    using assms by (auto simp: node_events_eligible[OF eligible] renewal_event_def)
qed

lemma buildRenewalSummary_window:
  assumes "ev \<in> set (snd (buildRenewalSummary convert s e nodes))"
  shows "s \<le> ev_date ev \<and> ev_date ev \<le> e"
proof -
  from assms obtain n where "ev \<in> set (node_events convert s e n)"
    by (auto simp: buildRenewalSummary_eq)
  then show ?thesis by (rule node_events_window)
qed

lemma renewal_anchor_advanced:
  fixes P E s :: int
  assumes "0 < P" "E < s"
  shows "s < E + ((s - E) div P + 1) * P" and "E + ((s - E) div P + 1) * P \<le> s + P"
proof -
  have r: "0 \<le> (s - E) mod P" "(s - E) mod P < P" using assms(1) by simp_all
  have d: "s - E = (s - E) div P * P + (s - E) mod P" by simp
  have e: "E + ((s - E) div P + 1) * P = E + (s - E) div P * P + P" by (simp add: algebra_simps)
  show "s < E + ((s - E) div P + 1) * P" using r d unfolding e by linarith
  show "E + ((s - E) div P + 1) * P \<le> s + P" using r d unfolding e by linarith
qed

lemma node_events_length:
  assumes "0 < price n" "0 < billing_cycle n" "expired_at n = Expires E"
  shows "length (node_events convert s e n)
           = renewal_count (renewal_anchor s E (billing_cycle n * 86400000)) e (billing_cycle n * 86400000)"
  by (simp add: node_events_eligible[OF assms])

lemma node_events_count_advanced:
  assumes "0 < price n" "0 < billing_cycle n" "expired_at n = Expires E" "E < s"
    and "E + ((s - E) div (billing_cycle n * 86400000) + 1) * (billing_cycle n * 86400000) \<le> e"
  shows "int (length (node_events convert s e n))
           = (e - (E + ((s - E) div (billing_cycle n * 86400000) + 1) * (billing_cycle n * 86400000)))
               div (billing_cycle n * 86400000) + 1"
proof -
  define P where "P = billing_cycle n * 86400000"
  define a where "a = E + ((s - E) div P + 1) * P"
  have P: "0 < P" using assms(2) by (simp add: P_def)
  have ae: "a \<le> e" using assms(5) by (simp add: a_def P_def)
  have "0 \<le> (e - a) div P" using P ae by (simp add: pos_imp_zdiv_nonneg_iff)
  then have "int (renewal_count a e P) = (e - a) div P + 1"
    using ae by (simp add: renewal_count_def)
  moreover have "renewal_anchor s E P = a" using assms(4) by (simp add: renewal_anchor_def a_def)
  ultimately show ?thesis
    using node_events_length[OF assms(1,2,3), of convert s e]
    by (simp add: P_def a_def)
qed

lemma node_events_none_after:
  assumes "0 < price n" "0 < billing_cycle n" "expired_at n = Expires E"
    and "e < renewal_anchor s E (billing_cycle n * 86400000)"
  shows "node_events convert s e n = []"
  using assms(4) node_events_length[OF assms(1,2,3), of convert s e]
  by (simp add: renewal_count_def)

lemma renewal_anchor_ge_base:
  fixes P E s :: int
  assumes "0 < P"
  shows "E \<le> renewal_anchor s E P"
proof (cases "E < s")
  case True
  then have "0 \<le> (s - E) div P" using assms by (simp add: pos_imp_zdiv_nonneg_iff)
  then have "0 \<le> ((s - E) div P + 1) * P" using assms by simp
  then show ?thesis using True by (simp add: renewal_anchor_def)
next
  case False
  then show ?thesis by (simp add: renewal_anchor_def)
qed

text \<open>
  Claim C4. For every list of nodes, every conversion callback and every window from
  \<open>s\<close> to \<open>e\<close>: no event of the summary is dated outside the window; the events are the
  events pushed for the nodes, sorted by time, ascending; the total is the sum of their
  amounts, added one event at a time in the order in which they are pushed; every event
  of a node carries its name and its converted price. A node without a positive price, a
  positive cycle and an expiry that parses is skipped. For a node that is projected (its
  expiry parses to \<open>E\<close>), with the period \<open>P\<close> of its cycle in milliseconds: when \<open>E\<close> lies
  inside the window the number of its events is \<open>floor((e - E) / P) + 1\<close> and they are at
  \<open>E, E + P, ...\<close>; when \<open>E\<close> precedes \<open>s\<close> the anchor is advanced to \<open>A = E + k P\<close> with
  \<open>k = floor((s - E) / P) + 1\<close>, which lies after \<open>s\<close> and at most one period later, the
  events are at \<open>A, A + P, ...\<close>, and their number is \<open>floor((e - A) / P) + 1\<close> when \<open>A\<close> is
  inside the window and 0 when it is after \<open>e\<close>; and when \<open>E\<close> is after \<open>e\<close> there is no
  event.
\<close>

theorem buildRenewalSummary_projection:
  "(\<forall>ev \<in> set (snd (buildRenewalSummary convert s e nodes)). s \<le> ev_date ev \<and> ev_date ev \<le> e)
   \<and> sorted (map ev_date (snd (buildRenewalSummary convert s e nodes)))
   \<and> snd (buildRenewalSummary convert s e nodes)
       = sort_key ev_date (concat (map (node_events convert s e) nodes))
   \<and> mset (snd (buildRenewalSummary convert s e nodes))
       = mset (concat (map (node_events convert s e) nodes))
   \<and> fst (buildRenewalSummary convert s e nodes)
       = foldl js_add 0 (map ev_amount (concat (map (node_events convert s e) nodes)))
   \<and> (\<forall>ev \<in> set (node_events convert s e n).
         ev_name ev = name n \<and> ev_amount ev = convert (price n) (currency n))
   \<and> (price n \<le> 0 \<or> billing_cycle n \<le> 0 \<or> expired_at n = No_Expiry \<or> expired_at n = Invalid_Date \<longrightarrow>
        node_events convert s e n = [])
   \<and> (0 < price n \<and> 0 < billing_cycle n \<and> expired_at n = Expires E \<longrightarrow>
        (s \<le> E \<and> E \<le> e \<longrightarrow>
           int (length (node_events convert s e n)) = (e - E) div (billing_cycle n * 86400000) + 1)
        \<and> (s \<le> E \<longrightarrow>
           map ev_date (node_events convert s e n)
             = map (\<lambda>i. E + int i * (billing_cycle n * 86400000))
                 [0..<length (node_events convert s e n)])
        \<and> (E < s \<longrightarrow>
           map ev_date (node_events convert s e n)
             = map (\<lambda>i. (E + ((s - E) div (billing_cycle n * 86400000) + 1) * (billing_cycle n * 86400000))
                           + int i * (billing_cycle n * 86400000))
                 [0..<length (node_events convert s e n)])
        \<and> (E < s \<longrightarrow>
           s < (E + ((s - E) div (billing_cycle n * 86400000) + 1) * (billing_cycle n * 86400000))
           \<and> (E + ((s - E) div (billing_cycle n * 86400000) + 1) * (billing_cycle n * 86400000)) \<le> s + (billing_cycle n * 86400000))
        \<and> (E < s \<and> (E + ((s - E) div (billing_cycle n * 86400000) + 1) * (billing_cycle n * 86400000)) \<le> e \<longrightarrow>
           int (length (node_events convert s e n))
             = (e - (E + ((s - E) div (billing_cycle n * 86400000) + 1) * (billing_cycle n * 86400000))) div (billing_cycle n * 86400000) + 1)
        \<and> (E < s \<and> e < (E + ((s - E) div (billing_cycle n * 86400000) + 1) * (billing_cycle n * 86400000)) \<longrightarrow>
           node_events convert s e n = [])
        \<and> (e < E \<longrightarrow> node_events convert s e n = []))"
proof (intro conjI ballI impI)
  fix ev
  assume "ev \<in> set (snd (buildRenewalSummary convert s e nodes))"
  then have "s \<le> ev_date ev \<and> ev_date ev \<le> e" by (rule buildRenewalSummary_window)
  then show "s \<le> ev_date ev" and "ev_date ev \<le> e" by simp_all
next
  show "sorted (map ev_date (snd (buildRenewalSummary convert s e nodes)))"
    by (simp add: buildRenewalSummary_eq)
next
  show "snd (buildRenewalSummary convert s e nodes)
          = sort_key ev_date (concat (map (node_events convert s e) nodes))"
    by (simp add: buildRenewalSummary_eq)
next
  show "mset (snd (buildRenewalSummary convert s e nodes))
          = mset (concat (map (node_events convert s e) nodes))"
    by (simp add: buildRenewalSummary_eq)
next
  show "fst (buildRenewalSummary convert s e nodes)
          = foldl js_add 0 (map ev_amount (concat (map (node_events convert s e) nodes)))"
    by (simp add: buildRenewalSummary_eq)
next
  fix ev
  assume "ev \<in> set (node_events convert s e n)"
  then have "ev_name ev = name n \<and> ev_amount ev = convert (price n) (currency n)"
    by (rule node_events_fields)
  then show "ev_name ev = name n" and "ev_amount ev = convert (price n) (currency n)" by simp_all
next
  assume el: "0 < price n \<and> 0 < billing_cycle n \<and> expired_at n = Expires E"
  assume "s \<le> E \<and> E \<le> e"
  then show "int (length (node_events convert s e n)) = (e - E) div (billing_cycle n * 86400000) + 1"
    using el node_events_count_inside[of n E s e convert] by simp
next
  assume el: "0 < price n \<and> 0 < billing_cycle n \<and> expired_at n = Expires E"
  assume "s \<le> E"
  then show "map ev_date (node_events convert s e n)
             = map (\<lambda>i. E + int i * (billing_cycle n * 86400000))
                 [0..<length (node_events convert s e n)]"
    using el node_events_dates[of n E convert s e] by (simp add: renewal_anchor_def)
next
  assume el: "0 < price n \<and> 0 < billing_cycle n \<and> expired_at n = Expires E"
  assume "E < s"
  then show "map ev_date (node_events convert s e n)
             = map (\<lambda>i. E + ((s - E) div (billing_cycle n * 86400000) + 1) * (billing_cycle n * 86400000)
                           + int i * (billing_cycle n * 86400000))
                 [0..<length (node_events convert s e n)]"
    using el node_events_dates[of n E convert s e] by (simp add: renewal_anchor_def)
next
  assume "price n \<le> 0 \<or> billing_cycle n \<le> 0 \<or> expired_at n = No_Expiry \<or> expired_at n = Invalid_Date"
  then show "node_events convert s e n = []" by (rule node_events_skipped(1))
next
  assume el: "0 < price n \<and> 0 < billing_cycle n \<and> expired_at n = Expires E"
  assume b: "E < s"
  have P: "0 < (billing_cycle n * 86400000)" using el by simp
  show "s < (E + ((s - E) div (billing_cycle n * 86400000) + 1) * (billing_cycle n * 86400000))"
    by (rule renewal_anchor_advanced(1)[OF P b])
  show "(E + ((s - E) div (billing_cycle n * 86400000) + 1) * (billing_cycle n * 86400000)) \<le> s + (billing_cycle n * 86400000)"
    by (rule renewal_anchor_advanced(2)[OF P b])
next
  assume el: "0 < price n \<and> 0 < billing_cycle n \<and> expired_at n = Expires E"
  assume "E < s \<and> (E + ((s - E) div (billing_cycle n * 86400000) + 1) * (billing_cycle n * 86400000)) \<le> e"
  then show "int (length (node_events convert s e n))
             = (e - (E + ((s - E) div (billing_cycle n * 86400000) + 1) * (billing_cycle n * 86400000))) div (billing_cycle n * 86400000) + 1"
    using el node_events_count_advanced[of n E s e convert] by simp
next
  assume el: "0 < price n \<and> 0 < billing_cycle n \<and> expired_at n = Expires E"
  assume "E < s \<and> e < (E + ((s - E) div (billing_cycle n * 86400000) + 1) * (billing_cycle n * 86400000))"
  then have "e < renewal_anchor s E (billing_cycle n * 86400000)" by (simp add: renewal_anchor_def)
  then show "node_events convert s e n = []"
    using el node_events_none_after[of n E e s convert] by simp
next
  assume el: "0 < price n \<and> 0 < billing_cycle n \<and> expired_at n = Expires E"
  assume b: "e < E"
  have P: "0 < (billing_cycle n * 86400000)" using el by simp
  have "E \<le> renewal_anchor s E (billing_cycle n * 86400000)" using P by (rule renewal_anchor_ge_base)
  then have "e < renewal_anchor s E (billing_cycle n * 86400000)" using b by linarith
  then show "node_events convert s e n = []"
    using el node_events_none_after[of n E e s convert] by simp
qed

text \<open>
  January 2025 as the window: a node that expired on 2024-12-20 and renews every 30 days
  has one event, on 2025-01-19 (\<open>k = 1\<close>), and none when the window ends on 2025-01-15; a
  node that expires on 2025-01-10 and renews every 7 days has four, and none when the
  window ends on 2025-01-05; a free node has none.
\<close>

theorem buildRenewalSummary_projection_witness:
  "buildRenewalSummary example_convert 1735689600000 1738367999999 [monthly_node, weekly_node, free_node]
     = (55,
        [\<lparr>ev_name = ''paris'', ev_date = 1736467200000, ev_amount = 10\<rparr>,
         \<lparr>ev_name = ''paris'', ev_date = 1737072000000, ev_amount = 10\<rparr>,
         \<lparr>ev_name = ''tokyo'', ev_date = 1737244800000, ev_amount = 15\<rparr>,
         \<lparr>ev_name = ''paris'', ev_date = 1737676800000, ev_amount = 10\<rparr>,
         \<lparr>ev_name = ''paris'', ev_date = 1738281600000, ev_amount = 10\<rparr>])
   \<and> int (length (node_events example_convert 1735689600000 1738367999999 weekly_node)) = 4
   \<and> map ev_date (node_events example_convert 1735689600000 1738367999999 weekly_node)
       = [1736467200000, 1737072000000, 1737676800000, 1738281600000]
   \<and> map ev_date (node_events example_convert 1735689600000 1738367999999 monthly_node) = [1737244800000]
   \<and> ev_name \<lparr>ev_name = ''tokyo'', ev_date = 1737244800000, ev_amount = 15\<rparr> = name monthly_node
   \<and> ev_amount \<lparr>ev_name = ''tokyo'', ev_date = 1737244800000, ev_amount = 15\<rparr>
       = example_convert (price monthly_node) (currency monthly_node)
   \<and> node_events example_convert 1735689600000 1738367999999 free_node = []
   \<and> int (length (node_events example_convert 1735689600000 1738367999999 monthly_node)) = 1
   \<and> node_events example_convert 1735689600000 1736985599999 monthly_node = []
   \<and> node_events example_convert 1735689600000 1736121599999 weekly_node = []
   \<and> 1735689600000 \<le> ev_date \<lparr>ev_name = ''tokyo'', ev_date = 1737244800000, ev_amount = 15\<rparr>
   \<and> ev_date \<lparr>ev_name = ''tokyo'', ev_date = 1737244800000, ev_amount = 15\<rparr> \<le> 1738367999999"
proof -
  let ?s = "1735689600000 :: int"
  let ?e = "1738367999999 :: int"
  let ?ev = "\<lparr>ev_name = ''tokyo'', ev_date = 1737244800000, ev_amount = 15\<rparr>"
  have r0: "buildRenewalSummary example_convert ?s ?e [monthly_node, weekly_node, free_node]
     = (55,
        [\<lparr>ev_name = ''paris'', ev_date = 1736467200000, ev_amount = 10\<rparr>,
         \<lparr>ev_name = ''paris'', ev_date = 1737072000000, ev_amount = 10\<rparr>,
         \<lparr>ev_name = ''tokyo'', ev_date = 1737244800000, ev_amount = 15\<rparr>,
         \<lparr>ev_name = ''paris'', ev_date = 1737676800000, ev_amount = 10\<rparr>,
         \<lparr>ev_name = ''paris'', ev_date = 1738281600000, ev_amount = 10\<rparr>])"
    by code_simp
  have hf: "price free_node \<le> 0 \<or> billing_cycle free_node \<le> 0
            \<or> expired_at free_node = No_Expiry \<or> expired_at free_node = Invalid_Date"
    by (simp add: free_node_def)
  have f: "node_events example_convert ?s ?e free_node = []"
    using hf buildRenewalSummary_projection[of example_convert ?s ?e "[]" free_node 0] by blast
  have l: "length (node_events example_convert ?s ?e monthly_node) = 1" by code_simp
  note w = buildRenewalSummary_projection[of example_convert ?s ?e
      "[monthly_node, weekly_node, free_node]" weekly_node 1736467200000]
  note m = buildRenewalSummary_projection[of example_convert ?s ?e
      "[monthly_node, weekly_node, free_node]" monthly_node 1734652800000]
  have hw: "0 < price weekly_node \<and> 0 < billing_cycle weekly_node
            \<and> expired_at weekly_node = Expires 1736467200000"
    by (simp add: weekly_node_def)
  have hm: "0 < price monthly_node \<and> 0 < billing_cycle monthly_node
            \<and> expired_at monthly_node = Expires 1734652800000"
    by (simp add: monthly_node_def)
  have c: "int (length (node_events example_convert ?s ?e weekly_node))
             = (?e - 1736467200000) div (billing_cycle weekly_node * 86400000) + 1"
    using w hw by simp
  have c4: "int (length (node_events example_convert ?s ?e weekly_node)) = 4"
    unfolding c by (simp add: weekly_node_def)
  have d: "map ev_date (node_events example_convert ?s ?e monthly_node)
             = map (\<lambda>i. 1734652800000
                          + ((?s - 1734652800000) div (billing_cycle monthly_node * 86400000) + 1)
                            * (billing_cycle monthly_node * 86400000)
                          + int i * (billing_cycle monthly_node * 86400000))
                 [0..<length (node_events example_convert ?s ?e monthly_node)]"
    using m hm by simp
  have d1: "map ev_date (node_events example_convert ?s ?e monthly_node) = [1737244800000]"
    unfolding d l by (simp add: monthly_node_def)
  have mem: "?ev \<in> set (snd (buildRenewalSummary example_convert ?s ?e [monthly_node, weekly_node, free_node]))"
    by (simp add: r0)
  have win: "?s \<le> ev_date ?ev \<and> ev_date ?ev \<le> ?e"
    using w mem by blast
  have lw: "length (node_events example_convert ?s ?e weekly_node) = 4" by code_simp
  have u: "[0..<4::nat] = [0, 1, 2, 3]" by code_simp
  have dw: "map ev_date (node_events example_convert ?s ?e weekly_node)
             = map (\<lambda>i. 1736467200000 + int i * (billing_cycle weekly_node * 86400000))
                 [0..<length (node_events example_convert ?s ?e weekly_node)]"
    using w hw by simp
  have dw1: "map ev_date (node_events example_convert ?s ?e weekly_node)
     = [1736467200000, 1737072000000, 1737676800000, 1738281600000]"
    unfolding dw lw u by (simp add: weekly_node_def)
  have me: "node_events example_convert ?s ?e monthly_node = [?ev]" by code_simp
  have mem': "?ev \<in> set (node_events example_convert ?s ?e monthly_node)" by (simp add: me)
  have fl: "ev_name ?ev = name monthly_node
            \<and> ev_amount ?ev = example_convert (price monthly_node) (currency monthly_node)"
    using m mem' by blast
  have am: "1734652800000 + ((?s - 1734652800000) div (billing_cycle monthly_node * 86400000) + 1)
                * (billing_cycle monthly_node * 86400000) = 1737244800000"
    by (simp add: monthly_node_def)
  have hm1: "1734652800000 < ?s
             \<and> 1734652800000 + ((?s - 1734652800000) div (billing_cycle monthly_node * 86400000) + 1)
                * (billing_cycle monthly_node * 86400000) \<le> ?e"
    unfolding am by simp
  have c1: "int (length (node_events example_convert ?s ?e monthly_node))
             = (?e - (1734652800000 + ((?s - 1734652800000) div (billing_cycle monthly_node * 86400000) + 1)
                * (billing_cycle monthly_node * 86400000))) div (billing_cycle monthly_node * 86400000) + 1"
    using m hm hm1 by blast
  have c1': "int (length (node_events example_convert ?s ?e monthly_node)) = 1"
    unfolding c1 am by (simp add: monthly_node_def)
  have hm2: "1734652800000 < ?s
             \<and> 1736985599999 < 1734652800000 + ((?s - 1734652800000) div (billing_cycle monthly_node * 86400000) + 1)
                * (billing_cycle monthly_node * 86400000)"
    unfolding am by simp
  have n1: "node_events example_convert ?s 1736985599999 monthly_node = []"
    using hm hm2 buildRenewalSummary_projection[of example_convert ?s 1736985599999 "[]"
        monthly_node 1734652800000]
    by blast
  have hw3: "(1736121599999::int) < 1736467200000" by simp
  have n2: "node_events example_convert ?s 1736121599999 weekly_node = []"
    using hw hw3 buildRenewalSummary_projection[of example_convert ?s 1736121599999 "[]"
        weekly_node 1736467200000]
    by blast
  show ?thesis using r0 c4 dw1 d1 fl f win c1' n1 n2 by blast
qed

end
